theory Spec2Isabelle
  imports Main "HOL-Library.AList" "HOL-Library.List_Lexorder" "HOL-Library.Char_ord"
begin

section \<open>JSON texts and byte slices\<close>

text \<open>
  The program handles JSON as byte slices (\<^verbatim>\<open>[]byte\<close>, \<^verbatim>\<open>json.RawMessage\<close>) and reads and
  writes them with Go's \<^verbatim>\<open>encoding/json\<close>. A byte slice is represented by what the library's
  scanner makes of it: nothing at all, white space only, a syntax error, or a JSON text. A
  JSON text is its syntax tree: object members in document order, duplicates included, and
  number literals as they are written. White space between tokens and the choice of string
  escapes are not represented, and strings are taken to be valid UTF-8.
\<close>

datatype json =
    JNull
  | JBool bool
  | JNumber string
  | JString string
  | JArray "json list"
  | JObject "(string \<times> json) list"

datatype bytes =
    Empty                \<comment> \<open>\<^verbatim>\<open>nil\<close>, or a slice of length 0\<close>
  | Blank                \<comment> \<open>one or more bytes of JSON white space and nothing else\<close>
  | Invalid string       \<comment> \<open>any other bytes the scanner rejects, with its error message\<close>
  | Padded string bytes  \<comment> \<open>rejected bytes that \<^verbatim>\<open>bytes.TrimSpace\<close> changes, see below\<close>
  | Text json            \<comment> \<open>a valid JSON text\<close>

text \<open>White space to the scanner is the space, \<^verbatim>\<open>\t\<close>, \<^verbatim>\<open>\n\<close> and \<^verbatim>\<open>\r\<close>. \<^verbatim>\<open>bytes.TrimSpace\<close>
  strips more: also \<^verbatim>\<open>\v\<close>, \<^verbatim>\<open>\f\<close>, U+0085, U+00A0 and the other white space of Unicode. Bytes
  that begin or end with white space of which some is none to the scanner are
  \<open>Padded msg b\<close>: the scanner rejects them with the message \<open>msg\<close>, and \<open>b\<close> is what is left
  of them when all the white space at both ends is taken off, which may be nothing, a JSON
  text, or bytes that the scanner rejects as well. The bytes of \<open>Invalid msg\<close> have no such
  white space at their ends.\<close>

text \<open>A Go \<^verbatim>\<open>map[string]json.RawMessage\<close>: an association list with distinct keys; a
  variable of map type may also hold the \<^verbatim>\<open>nil\<close> map, which is \<open>None\<close>.\<close>

type_synonym rawmap = "(string \<times> bytes) list"

fun kind :: "json \<Rightarrow> string" where
  "kind JNull = ''null''"
| "kind (JBool b) = ''bool''"
| "kind (JNumber n) = ''number''"
| "kind (JString s) = ''string''"
| "kind (JArray xs) = ''array''"
| "kind (JObject kvs) = ''object''"

text \<open>The text of an \<^verbatim>\<open>UnmarshalTypeError\<close>, for a value decoded at top level and for the value
  of a struct field; \<open>field\<close> is the name of the struct type that has the field, a dot, and
  the path of keys from the root to the field.\<close>

definition type_error :: "json \<Rightarrow> string \<Rightarrow> string" where
  "type_error j ty = ''json: cannot unmarshal '' @ kind j @ '' into Go value of type '' @ ty"

definition field_error :: "json \<Rightarrow> string \<Rightarrow> string \<Rightarrow> string" where
  "field_error j field ty =
     ''json: cannot unmarshal '' @ kind j @ '' into Go struct field '' @ field @
     '' of type '' @ ty"

definition bind_err :: "string + 'a \<Rightarrow> ('a \<Rightarrow> string + 'b) \<Rightarrow> string + 'b" where
  "bind_err x f = (case x of Inl err \<Rightarrow> Inl err | Inr v \<Rightarrow> f v)"

subsection \<open>\<^verbatim>\<open>encoding/json\<close> as the program uses it\<close>

text \<open>\<^verbatim>\<open>json.Unmarshal(data, &m)\<close> for \<^verbatim>\<open>var m map[string]json.RawMessage\<close>: a syntax error
  for bytes that are no JSON text; \<^verbatim>\<open>null\<close> leaves the map \<^verbatim>\<open>nil\<close> and is no error; an
  object fills a fresh map member by member, a later duplicate overwriting an earlier one,
  each value kept verbatim; any other value is a type error.\<close>

fun unmarshal_map :: "bytes \<Rightarrow> string + rawmap option" where
  "unmarshal_map Empty = Inl ''unexpected end of JSON input''"
| "unmarshal_map Blank = Inl ''unexpected end of JSON input''"
| "unmarshal_map (Invalid msg) = Inl msg"
| "unmarshal_map (Padded msg b) = Inl msg"
| "unmarshal_map (Text JNull) = Inr None"
| "unmarshal_map (Text (JObject kvs)) =
     Inr (Some (fold (\<lambda>(k, v). AList.update k (Text v)) kvs []))"
| "unmarshal_map (Text j) = Inl (type_error j ''map[string]json.RawMessage'')"

text \<open>\<^verbatim>\<open>json.Unmarshal(data, &s)\<close> for a string variable holding \<open>cur\<close>: \<^verbatim>\<open>null\<close> leaves
  the variable as it is.\<close>

fun unmarshal_string :: "bytes \<Rightarrow> string \<Rightarrow> string + string" where
  "unmarshal_string Empty cur = Inl ''unexpected end of JSON input''"
| "unmarshal_string Blank cur = Inl ''unexpected end of JSON input''"
| "unmarshal_string (Invalid msg) cur = Inl msg"
| "unmarshal_string (Padded msg b) cur = Inl msg"
| "unmarshal_string (Text JNull) cur = Inr cur"
| "unmarshal_string (Text (JString s)) cur = Inr s"
| "unmarshal_string (Text j) cur = Inl (type_error j ''string'')"

text \<open>A \<^verbatim>\<open>json.RawMessage\<close> as a map value under \<^verbatim>\<open>json.Marshal\<close>: \<^verbatim>\<open>nil\<close> is written as
  \<^verbatim>\<open>null\<close>, a JSON text as it is, anything else is an error.\<close>

fun marshal_RawMessage :: "bytes \<Rightarrow> string + json" where
  "marshal_RawMessage Empty = Inr JNull"
| "marshal_RawMessage Blank =
     Inl ''json: error calling MarshalJSON for type json.RawMessage: unexpected end of JSON input''"
| "marshal_RawMessage (Invalid msg) =
     Inl (''json: error calling MarshalJSON for type json.RawMessage: '' @ msg)"
| "marshal_RawMessage (Padded msg b) =
     Inl (''json: error calling MarshalJSON for type json.RawMessage: '' @ msg)"
| "marshal_RawMessage (Text j) = Inr j"

fun marshal_members :: "rawmap \<Rightarrow> string + (string \<times> json) list" where
  "marshal_members [] = Inr []"
| "marshal_members ((k, v) # m) =
     bind_err (marshal_RawMessage v) (\<lambda>j.
     bind_err (marshal_members m) (\<lambda>js. Inr ((k, j) # js)))"

text \<open>\<^verbatim>\<open>json.Marshal(m)\<close> for a \<^verbatim>\<open>map[string]json.RawMessage\<close>: the \<^verbatim>\<open>nil\<close> map is
  \<^verbatim>\<open>null\<close>; otherwise an object with the keys sorted as byte strings.\<close>

fun marshal_map :: "rawmap option \<Rightarrow> string + bytes" where
  "marshal_map None = Inr (Text JNull)"
| "marshal_map (Some m) =
     bind_err (marshal_members (sort_key fst m)) (\<lambda>js. Inr (Text (JObject js)))"

text \<open>\<^verbatim>\<open>bytes.TrimSpace\<close>. The white space around a JSON text, and the JSON white space
  around rejected bytes, does not show in the representation: with or without it the bytes
  are the same text, or are rejected with the same message.\<close>

fun TrimSpace :: "bytes \<Rightarrow> bytes" where
  "TrimSpace Empty = Empty"
| "TrimSpace Blank = Empty"
| "TrimSpace (Invalid msg) = Invalid msg"
| "TrimSpace (Padded msg b) = TrimSpace b"
| "TrimSpace (Text j) = Text j"

text \<open>\<^verbatim>\<open>strings.Join\<close>.\<close>

fun Join :: "string list \<Rightarrow> string \<Rightarrow> string" where
  "Join [] sep = ''''"
| "Join [x] sep = x"
| "Join (x # y # ys) sep = x @ sep @ Join (y # ys) sep"

text \<open>The verbs \<^verbatim>\<open>%d\<close> and \<^verbatim>\<open>%q\<close> of \<^verbatim>\<open>fmt.Sprintf\<close>.\<close>

function show_nat :: "nat \<Rightarrow> string" where
  "show_nat n =
     (if n < 10 then [char_of (48 + n)]
      else show_nat (n div 10) @ [char_of (48 + n mod 10)])"
  by pat_completeness auto
termination
  by (relation "measure (\<lambda>n. n)") auto

definition show_int :: "int \<Rightarrow> string" where
  "show_int i = (if i < 0 then CHR ''-'' # show_nat (nat (- i)) else show_nat (nat i))"

text \<open>\<^verbatim>\<open>%q\<close> of a string is \<^verbatim>\<open>strconv.Quote\<close>: the string between double quotes, read rune by
  rune. The double quote and the backslash get a backslash; a printable rune is written as
  it is; of the others, the control characters with a name are written \<^verbatim>\<open>\a \b \f \n \r \t \v\<close>,
  the other runes below the space and DEL as \<^verbatim>\<open>\x\<close> and two hexadecimal digits, the runes of the
  basic plane as \<^verbatim>\<open>\u\<close> and four digits, the others as \<^verbatim>\<open>\U\<close> and eight; a byte that begins no
  valid UTF-8 sequence is written as \<^verbatim>\<open>\x\<close> and two digits.

  \<^verbatim>\<open>utf8.DecodeRuneInString\<close> on the bytes of the string: the rune and its width, or \<open>None\<close>
  and width 1 for a byte that begins no valid sequence.\<close>

fun DecodeRune :: "nat list \<Rightarrow> nat option \<times> nat" where
  "DecodeRune [] = (None, 0)"
| "DecodeRune (s0 # s) =
     (if s0 < 0x80 then (Some s0, 1)
      else if s0 < 0xC2 \<or> 0xF4 < s0 then (None, 1)
      else
        let sz = (if s0 < 0xE0 then 2 else if s0 < 0xF0 then 3 else 4 :: nat);
            lo = (if s0 = 0xE0 then 0xA0 else if s0 = 0xF0 then 0x90 else 0x80 :: nat);
            hi = (if s0 = 0xED then 0x9F else if s0 = 0xF4 then 0x8F else 0xBF :: nat)
        in if length s < sz - 1 then (None, 1)
           else if s ! 0 < lo \<or> hi < s ! 0 then (None, 1)
           else if sz \<le> 2 then (Some ((s0 mod 0x20) * 0x40 + s ! 0 mod 0x40), 2)
           else if s ! 1 < 0x80 \<or> 0xBF < s ! 1 then (None, 1)
           else if sz \<le> 3 then
             (Some ((s0 mod 0x10) * 0x1000 + (s ! 0 mod 0x40) * 0x40 + s ! 1 mod 0x40), 3)
           else if s ! 2 < 0x80 \<or> 0xBF < s ! 2 then (None, 1)
           else (Some ((s0 mod 0x08) * 0x40000 + (s ! 0 mod 0x40) * 0x1000 +
                       (s ! 1 mod 0x40) * 0x40 + s ! 2 mod 0x40), 4))"

text \<open>\<^verbatim>\<open>strconv.IsPrint\<close> decides the runes up to U+00FF by comparison and the others by
  searching the library's Unicode tables. The tables are not modelled: which runes above
  U+00FF are printable is the parameter \<open>isPrint\<close>.\<close>

type_synonym isPrint = "nat \<Rightarrow> bool"

definition IsPrint :: "isPrint \<Rightarrow> nat \<Rightarrow> bool" where
  "IsPrint p r =
     (if r \<le> 0xFF then (0x20 \<le> r \<and> r \<le> 0x7E) \<or> (0xA1 \<le> r \<and> r \<noteq> 0xAD)
      else p r)"

definition lowerhex :: "nat \<Rightarrow> char" where
  "lowerhex n = ''0123456789abcdef'' ! n"

text \<open>The last \<open>n\<close> hexadecimal digits of \<open>r\<close>.\<close>

definition hex_digits :: "nat \<Rightarrow> nat \<Rightarrow> string" where
  "hex_digits n r = map (\<lambda>i. lowerhex (r div 16 ^ i mod 16)) (rev [0..<n])"

text \<open>\<^verbatim>\<open>appendEscapedRune\<close> for the rune \<open>r\<close> whose bytes in the string are \<open>enc\<close>.\<close>

definition appendEscapedRune :: "isPrint \<Rightarrow> nat \<Rightarrow> string \<Rightarrow> string" where
  "appendEscapedRune p r enc =
     (if r = 0x22 \<or> r = 0x5C then [CHR 0x5C, char_of r]
      else if IsPrint p r then enc
      else if r = 0x07 then [CHR 0x5C, CHR ''a'']
      else if r = 0x08 then [CHR 0x5C, CHR ''b'']
      else if r = 0x0C then [CHR 0x5C, CHR ''f'']
      else if r = 0x0A then [CHR 0x5C, CHR ''n'']
      else if r = 0x0D then [CHR 0x5C, CHR ''r'']
      else if r = 0x09 then [CHR 0x5C, CHR ''t'']
      else if r = 0x0B then [CHR 0x5C, CHR ''v'']
      else if r < 0x20 \<or> r = 0x7F then [CHR 0x5C, CHR ''x''] @ hex_digits 2 r
      else if r < 0x10000 then [CHR 0x5C, CHR ''u''] @ hex_digits 4 r
      else [CHR 0x5C, CHR ''U''] @ hex_digits 8 r)"

text \<open>The loop of \<^verbatim>\<open>appendQuotedWith\<close>.\<close>

function quoted :: "isPrint \<Rightarrow> string \<Rightarrow> string" where
  "quoted p [] = []"
| "quoted p (c # s) =
     (case DecodeRune (map of_char (c # s)) of
        (None, width) \<Rightarrow> [CHR 0x5C, CHR ''x''] @ hex_digits 2 (of_char c) @ quoted p s
      | (Some r, width) \<Rightarrow>
          appendEscapedRune p r (take width (c # s)) @ quoted p (drop width (c # s)))"
  by pat_completeness auto
termination
proof (relation "measure (\<lambda>(p, s). length s)", goal_cases)
  case 1
  then show ?case by simp
next
  case (2 p c s x width)
  then show ?case by simp
next
  case (3 p c s x width r)
  then have "0 < width"
    by (auto simp: Let_def split: if_splits)
  then show ?case by simp
qed

definition quote :: "isPrint \<Rightarrow> string \<Rightarrow> string" where
  "quote p s = [CHR 0x22] @ quoted p s @ [CHR 0x22]"

section \<open>Package hook: the envelope codec\<close>

record Input =
  SessionID :: string
  TranscriptPath :: string
  CWD :: string
  PermissionMode :: string
  HookEventName :: string
  ToolName :: string
  ToolUseID :: string
  ToolInput :: bytes
  rawFields :: "rawmap option"

definition zero_Input :: Input where
  "zero_Input =
     \<lparr>SessionID = '''', TranscriptPath = '''', CWD = '''', PermissionMode = '''',
      HookEventName = '''', ToolName = '''', ToolUseID = '''', ToolInput = Empty,
      rawFields = None\<rparr>"

text \<open>\<^verbatim>\<open>v, ok := raw[key]\<close>; reading the \<^verbatim>\<open>nil\<close> map finds nothing.\<close>

definition lookup :: "rawmap option \<Rightarrow> string \<Rightarrow> bytes option" where
  "lookup raw key = (case raw of None \<Rightarrow> None | Some m \<Rightarrow> map_of m key)"

text \<open>One \<^verbatim>\<open>if v, ok := raw[key]; ok { json.Unmarshal(v, &field) }\<close> block of
  \<^verbatim>\<open>UnmarshalJSON\<close>.\<close>

definition string_field :: "rawmap option \<Rightarrow> string \<Rightarrow> string \<Rightarrow> string + string" where
  "string_field raw key cur =
     (case lookup raw key of
        None \<Rightarrow> Inr cur
      | Some v \<Rightarrow>
          (case unmarshal_string v cur of
             Inl err \<Rightarrow> Inl (''hook.Input unmarshal '' @ key @ '': '' @ err)
           | Inr s \<Rightarrow> Inr s))"

definition UnmarshalJSON :: "Input \<Rightarrow> bytes \<Rightarrow> string + Input" where
  "UnmarshalJSON inp data =
     (case unmarshal_map data of
        Inl err \<Rightarrow> Inl (''hook.Input unmarshal: '' @ err)
      | Inr raw \<Rightarrow>
          bind_err (string_field raw ''session_id'' (SessionID inp)) (\<lambda>sessionID.
          bind_err (string_field raw ''transcript_path'' (TranscriptPath inp)) (\<lambda>transcriptPath.
          bind_err (string_field raw ''cwd'' (CWD inp)) (\<lambda>cwd.
          bind_err (string_field raw ''permission_mode'' (PermissionMode inp)) (\<lambda>permissionMode.
          bind_err (string_field raw ''hook_event_name'' (HookEventName inp)) (\<lambda>hookEventName.
          bind_err (string_field raw ''tool_name'' (ToolName inp)) (\<lambda>toolName.
          bind_err (string_field raw ''tool_use_id'' (ToolUseID inp)) (\<lambda>toolUseID.
          Inr \<lparr>SessionID = sessionID, TranscriptPath = transcriptPath, CWD = cwd,
               PermissionMode = permissionMode, HookEventName = hookEventName,
               ToolName = toolName, ToolUseID = toolUseID,
               ToolInput = (case lookup raw ''tool_input'' of
                              None \<Rightarrow> ToolInput inp | Some v \<Rightarrow> v),
               rawFields = raw\<rparr>))))))))"

text \<open>\<^verbatim>\<open>var input hook.Input; json.Unmarshal(data, &input)\<close>: the library checks the syntax
  of the whole input and then hands it to \<^verbatim>\<open>UnmarshalJSON\<close>.\<close>

definition Decode :: "bytes \<Rightarrow> string + Input" where
  "Decode data =
     (case data of
        Empty \<Rightarrow> Inl ''unexpected end of JSON input''
      | Blank \<Rightarrow> Inl ''unexpected end of JSON input''
      | Invalid msg \<Rightarrow> Inl msg
      | Padded msg b \<Rightarrow> Inl msg
      | Text j \<Rightarrow> UnmarshalJSON zero_Input (Text j))"

text \<open>One \<^verbatim>\<open>if field != "" { out[key] = json.Marshal(field) }\<close> block of \<^verbatim>\<open>MarshalJSON\<close>;
  marshalling a string cannot fail.\<close>

definition put_string :: "string \<Rightarrow> string \<Rightarrow> rawmap \<Rightarrow> rawmap" where
  "put_string key field out =
     (if field \<noteq> '''' then AList.update key (Text (JString field)) out else out)"

definition MarshalJSON :: "Input \<Rightarrow> string + bytes" where
  "MarshalJSON inp =
     (let out = (case rawFields inp of None \<Rightarrow> [] | Some m \<Rightarrow> m);
          out = put_string ''session_id'' (SessionID inp) out;
          out = put_string ''transcript_path'' (TranscriptPath inp) out;
          out = put_string ''cwd'' (CWD inp) out;
          out = put_string ''permission_mode'' (PermissionMode inp) out;
          out = put_string ''hook_event_name'' (HookEventName inp) out;
          out = put_string ''tool_name'' (ToolName inp) out;
          out = put_string ''tool_use_id'' (ToolUseID inp) out;
          out = (if ToolInput inp \<noteq> Empty
                 then AList.update ''tool_input'' (ToolInput inp) out else out)
      in marshal_map (Some out))"

text \<open>\<^verbatim>\<open>json.Marshal(input)\<close> calls \<^verbatim>\<open>MarshalJSON\<close> and keeps its bytes.\<close>

definition Encode :: "Input \<Rightarrow> string + bytes" where
  "Encode inp = MarshalJSON inp"

definition WithToolInput :: "Input \<Rightarrow> bytes \<Rightarrow> Input" where
  "WithToolInput inp merged =
     inp\<lparr>ToolInput := merged,
         rawFields := Some (AList.update ''tool_input'' merged
                              (case rawFields inp of None \<Rightarrow> [] | Some m \<Rightarrow> m))\<rparr>"

record HookSpecificOutput =
  HookEventName :: string
  PermissionDecision :: string
  PermissionDecisionReason :: string
  UpdatedInput :: bytes
  AdditionalContext :: string

record Output =
  HookSpecificOutput :: HookSpecificOutput
  Continue :: "bool option"
  SuppressOutput :: "bool option"
  SystemMessage :: string

definition zero_HookSpecificOutput :: HookSpecificOutput where
  "zero_HookSpecificOutput =
     \<lparr>HookSpecificOutput.HookEventName = '''', PermissionDecision = '''',
      PermissionDecisionReason = '''', UpdatedInput = Empty, AdditionalContext = ''''\<rparr>"

definition zero_Output :: Output where
  "zero_Output =
     \<lparr>HookSpecificOutput = zero_HookSpecificOutput, Continue = None, SuppressOutput = None,
      SystemMessage = ''''\<rparr>"

subsection \<open>Decoding and encoding \<^verbatim>\<open>Output\<close> with the library's struct codec\<close>

text \<open>The library matches an object key to a struct field by name: exactly, and failing
  that with both names folded (\<^verbatim>\<open>foldName\<close>), which turns an ASCII letter into its capital
  and any other rune into the smallest rune of its simple case folding. That is an ASCII
  letter for two runes only: U+017F, the long s, folds to S, and U+212A, the Kelvin sign,
  folds to K. The field names here are ASCII, so a key with any other rune above U+007F
  matches none of them, and the bytes of such runes are left as they are. A key that matches
  no field is skipped. A later duplicate of a key is decoded into the same field again.\<close>

definition upper :: "char \<Rightarrow> char" where
  "upper c =
     (case map_of (zip ''abcdefghijklmnopqrstuvwxyz'' ''ABCDEFGHIJKLMNOPQRSTUVWXYZ'') c of
        None \<Rightarrow> c
      | Some u \<Rightarrow> u)"

function foldName :: "string \<Rightarrow> string" where
  "foldName [] = []"
| "foldName (c # s) =
     (if c = CHR 0xC5 \<and> take 1 s = [CHR 0xBF] then CHR ''S'' # foldName (drop 1 s)
      else if c = CHR 0xE2 \<and> take 2 s = [CHR 0x84, CHR 0xAA] then CHR ''K'' # foldName (drop 2 s)
      else upper c # foldName s)"
  by pat_completeness auto
termination
  by (relation "measure length") auto

definition fold_eq :: "string \<Rightarrow> string \<Rightarrow> bool" where
  "fold_eq a b = (foldName a = foldName b)"

fun string_value :: "string \<Rightarrow> json \<Rightarrow> string \<Rightarrow> string + string" where
  "string_value field JNull cur = Inr cur"
| "string_value field (JString s) cur = Inr s"
| "string_value field j cur = Inl (field_error j field ''string'')"

fun bool_ptr_value :: "string \<Rightarrow> json \<Rightarrow> string + bool option" where
  "bool_ptr_value field JNull = Inr None"
| "bool_ptr_value field (JBool b) = Inr (Some b)"
| "bool_ptr_value field j = Inl (field_error j field ''bool'')"

fun members :: "('m \<Rightarrow> 's \<Rightarrow> string + 's) \<Rightarrow> 'm list \<Rightarrow> 's \<Rightarrow> string + 's" where
  "members f [] s = Inr s"
| "members f (m # ms) s = bind_err (f m s) (members f ms)"

definition hso_member :: "string \<times> json \<Rightarrow> HookSpecificOutput \<Rightarrow> string + HookSpecificOutput" where
  "hso_member kv h =
     (case kv of (k, v) \<Rightarrow>
        if fold_eq k ''hookEventName'' then
          bind_err
            (string_value ''HookSpecificOutput.hookSpecificOutput.hookEventName''
               v (HookSpecificOutput.HookEventName h))
            (\<lambda>s. Inr (h\<lparr>HookSpecificOutput.HookEventName := s\<rparr>))
        else if fold_eq k ''permissionDecision'' then
          bind_err
            (string_value ''HookSpecificOutput.hookSpecificOutput.permissionDecision''
               v (PermissionDecision h))
            (\<lambda>s. Inr (h\<lparr>PermissionDecision := s\<rparr>))
        else if fold_eq k ''permissionDecisionReason'' then
          bind_err
            (string_value ''HookSpecificOutput.hookSpecificOutput.permissionDecisionReason''
               v (PermissionDecisionReason h))
            (\<lambda>s. Inr (h\<lparr>PermissionDecisionReason := s\<rparr>))
        else if fold_eq k ''updatedInput'' then Inr (h\<lparr>UpdatedInput := Text v\<rparr>)
        else if fold_eq k ''additionalContext'' then
          bind_err
            (string_value ''HookSpecificOutput.hookSpecificOutput.additionalContext''
               v (AdditionalContext h))
            (\<lambda>s. Inr (h\<lparr>AdditionalContext := s\<rparr>))
        else Inr h)"

fun hso_value :: "json \<Rightarrow> HookSpecificOutput \<Rightarrow> string + HookSpecificOutput" where
  "hso_value JNull h = Inr h"
| "hso_value (JObject kvs) h = members hso_member kvs h"
| "hso_value j h =
     Inl (field_error j ''Output.hookSpecificOutput'' ''hook.HookSpecificOutput'')"

definition Output_member :: "string \<times> json \<Rightarrow> Output \<Rightarrow> string + Output" where
  "Output_member kv out =
     (case kv of (k, v) \<Rightarrow>
        if fold_eq k ''hookSpecificOutput'' then
          bind_err (hso_value v (HookSpecificOutput out))
            (\<lambda>h. Inr (out\<lparr>HookSpecificOutput := h\<rparr>))
        else if fold_eq k ''continue'' then
          bind_err (bool_ptr_value ''Output.continue'' v)
            (\<lambda>b. Inr (out\<lparr>Continue := b\<rparr>))
        else if fold_eq k ''suppressOutput'' then
          bind_err (bool_ptr_value ''Output.suppressOutput'' v)
            (\<lambda>b. Inr (out\<lparr>SuppressOutput := b\<rparr>))
        else if fold_eq k ''systemMessage'' then
          bind_err (string_value ''Output.systemMessage'' v (SystemMessage out))
            (\<lambda>s. Inr (out\<lparr>SystemMessage := s\<rparr>))
        else Inr out)"

text \<open>\<^verbatim>\<open>var output hook.Output; json.Unmarshal(stdout, &output)\<close>.\<close>

fun unmarshal_Output :: "bytes \<Rightarrow> string + Output" where
  "unmarshal_Output Empty = Inl ''unexpected end of JSON input''"
| "unmarshal_Output Blank = Inl ''unexpected end of JSON input''"
| "unmarshal_Output (Invalid msg) = Inl msg"
| "unmarshal_Output (Padded msg b) = Inl msg"
| "unmarshal_Output (Text JNull) = Inr zero_Output"
| "unmarshal_Output (Text (JObject kvs)) = members Output_member kvs zero_Output"
| "unmarshal_Output (Text j) = Inl (type_error j ''hook.Output'')"

text \<open>\<^verbatim>\<open>json.Marshal(out)\<close> for an \<^verbatim>\<open>Output\<close>: fields in declaration order, a field tagged
  \<^verbatim>\<open>omitempty\<close> left out when it is the empty string, a \<^verbatim>\<open>nil\<close> pointer or a raw message of
  length 0.\<close>

definition omit_string :: "string \<Rightarrow> string \<Rightarrow> (string \<times> json) list" where
  "omit_string key s = (if s = '''' then [] else [(key, JString s)])"

definition omit_bool_ptr :: "string \<Rightarrow> bool option \<Rightarrow> (string \<times> json) list" where
  "omit_bool_ptr key p = (case p of None \<Rightarrow> [] | Some b \<Rightarrow> [(key, JBool b)])"

definition omit_RawMessage :: "string \<Rightarrow> bytes \<Rightarrow> string + (string \<times> json) list" where
  "omit_RawMessage key m =
     (if m = Empty then Inr [] else bind_err (marshal_RawMessage m) (\<lambda>j. Inr [(key, j)]))"

definition marshal_HookSpecificOutput :: "HookSpecificOutput \<Rightarrow> string + json" where
  "marshal_HookSpecificOutput h =
     bind_err (omit_RawMessage ''updatedInput'' (UpdatedInput h)) (\<lambda>updatedInput.
     Inr (JObject
       (omit_string ''hookEventName'' (HookSpecificOutput.HookEventName h) @
        omit_string ''permissionDecision'' (PermissionDecision h) @
        omit_string ''permissionDecisionReason'' (PermissionDecisionReason h) @
        updatedInput @
        omit_string ''additionalContext'' (AdditionalContext h))))"

definition marshal_Output :: "Output \<Rightarrow> string + bytes" where
  "marshal_Output out =
     bind_err (marshal_HookSpecificOutput (HookSpecificOutput out)) (\<lambda>h.
     Inr (Text (JObject
       ([(''hookSpecificOutput'', h)] @
        omit_bool_ptr ''continue'' (Continue out) @
        omit_bool_ptr ''suppressOutput'' (SuppressOutput out) @
        omit_string ''systemMessage'' (SystemMessage out)))))"

subsection \<open>Decoding into \<^verbatim>\<open>any\<close> and encoding again\<close>

text \<open>\<^verbatim>\<open>json.Unmarshal(data, &v)\<close> for \<^verbatim>\<open>var v any\<close> turns an object into a Go map (a later
  duplicate key wins) and a number literal into a \<^verbatim>\<open>float64\<close>, which fails for a literal out
  of range; \<^verbatim>\<open>json.Marshal(v)\<close> writes maps with sorted keys and a \<^verbatim>\<open>float64\<close> in its
  shortest form. Floating point is not modelled: the conversion of a number literal to a
  \<^verbatim>\<open>float64\<close> and back to a literal is the parameter \<open>f64\<close>, \<open>None\<close> where the library reports
  a range error. A decoded value is again written as a syntax tree, its object members
  having distinct keys.\<close>

type_synonym f64 = "string \<Rightarrow> string option"

fun decode_any :: "f64 \<Rightarrow> json \<Rightarrow> json option"
  and decode_elems :: "f64 \<Rightarrow> json list \<Rightarrow> json list option"
  and decode_members :: "f64 \<Rightarrow> (string \<times> json) list \<Rightarrow> (string \<times> json) list option"
where
  "decode_any f JNull = Some JNull"
| "decode_any f (JBool b) = Some (JBool b)"
| "decode_any f (JNumber n) = map_option JNumber (f n)"
| "decode_any f (JString s) = Some (JString s)"
| "decode_any f (JArray xs) = map_option JArray (decode_elems f xs)"
| "decode_any f (JObject kvs) =
     map_option (\<lambda>m. JObject (fold (\<lambda>(k, v). AList.update k v) m [])) (decode_members f kvs)"
| "decode_elems f [] = Some []"
| "decode_elems f (x # xs) =
     (case decode_any f x of
        None \<Rightarrow> None
      | Some y \<Rightarrow> map_option ((#) y) (decode_elems f xs))"
| "decode_members f [] = Some []"
| "decode_members f ((k, v) # kvs) =
     (case decode_any f v of
        None \<Rightarrow> None
      | Some y \<Rightarrow> map_option ((#) (k, y)) (decode_members f kvs))"

fun unmarshal_any :: "f64 \<Rightarrow> bytes \<Rightarrow> string + json" where
  "unmarshal_any f Empty = Inl ''unexpected end of JSON input''"
| "unmarshal_any f Blank = Inl ''unexpected end of JSON input''"
| "unmarshal_any f (Invalid msg) = Inl msg"
| "unmarshal_any f (Padded msg b) = Inl msg"
| "unmarshal_any f (Text j) =
     (case decode_any f j of
        None \<Rightarrow> Inl ''json: cannot unmarshal number into Go value of type float64''
      | Some v \<Rightarrow> Inr v)"

fun marshal_any :: "json \<Rightarrow> json" where
  "marshal_any (JArray xs) = JArray (map marshal_any xs)"
| "marshal_any (JObject m) = JObject (sort_key fst (map (\<lambda>(k, v). (k, marshal_any v)) m))"
| "marshal_any j = j"

section \<open>Package config\<close>

record HookEntry =
  Name :: string
  Command :: string
  Args :: "string list"
  Timeout :: int
  Env :: "string list"
  OnError :: string

definition EffectiveOnError :: "HookEntry \<Rightarrow> string" where
  "EffectiveOnError h = (if OnError h = '''' then ''deny'' else OnError h)"

section \<open>Package audit\<close>

text \<open>The records of the audit trail, without the fields the database or the clock fills
  (\<^verbatim>\<open>ID\<close>, \<^verbatim>\<open>ChainID\<close>, \<^verbatim>\<open>Timestamp\<close>, \<^verbatim>\<open>DurationMs\<close>).\<close>

record HookResult =
  HookIndex :: int
  HookName :: string
  ExitCode :: int
  Outcome :: string
  Stderr :: string

record ChainExecution =
  EventName :: string
  ToolName :: string
  ChainLen :: int
  Outcome :: string
  Reason :: string
  SessionID :: string
  Hooks :: "HookResult list"

definition TruncateStderr :: "string \<Rightarrow> int \<Rightarrow> string" where
  "TruncateStderr s maxLen =
     (if maxLen \<le> 0 then ''''
      else if int (length s) \<le> maxLen then s
      else if maxLen \<le> 3 then take (nat maxLen) s
      else take (nat (maxLen - 3)) s @ ''...'')"

text \<open>The \<^verbatim>\<open>Auditor\<close> interface: \<^verbatim>\<open>RecordChain\<close> acts on a store of type \<open>'a\<close> and returns an
  error or \<^verbatim>\<open>nil\<close>. An interface value may be \<^verbatim>\<open>nil\<close>, which is \<open>None\<close>.\<close>

type_synonym 'a Auditor = "'a \<Rightarrow> ChainExecution \<Rightarrow> string option \<times> 'a"

section \<open>Package runner\<close>

record runner_Result =
  ExitCode :: int
  Stdout :: bytes
  Stderr :: string

text \<open>The \<^verbatim>\<open>Runner\<close> interface: \<^verbatim>\<open>Run(ctx, h, input)\<close> acts on the world outside, of type
  \<open>'w\<close>, and returns a launch error or a result.\<close>

type_synonym 'w Runner = "'w \<Rightarrow> HookEntry \<Rightarrow> bytes \<Rightarrow> (string + runner_Result) \<times> 'w"

section \<open>Package pipeline\<close>

subsection \<open>The merge\<close>

text \<open>\<^verbatim>\<open>for k, v := range patchMap { baseMap[k] = v }\<close>: ranging over the \<^verbatim>\<open>nil\<close> map or an
  empty map does nothing; an assignment into the \<^verbatim>\<open>nil\<close> map panics, which is \<open>None\<close>.\<close>

fun assign_all :: "rawmap option \<Rightarrow> rawmap option \<Rightarrow> rawmap option option" where
  "assign_all baseMap None = Some baseMap"
| "assign_all baseMap (Some []) = Some baseMap"
| "assign_all None (Some (p # ps)) = None"
| "assign_all (Some b) (Some (p # ps)) =
     Some (Some (fold (\<lambda>(k, v). AList.update k v) (p # ps) b))"

datatype merged =
    Merged bytes          \<comment> \<open>\<^verbatim>\<open>return result, nil\<close>\<close>
  | MergeError string     \<comment> \<open>\<^verbatim>\<open>return nil, err\<close>\<close>
  | NilMapPanic           \<comment> \<open>the run-time panic of an assignment into the \<^verbatim>\<open>nil\<close> map\<close>

definition shallowMergeJSON :: "bytes \<Rightarrow> bytes \<Rightarrow> merged" where
  "shallowMergeJSON base patch =
     (if base = Empty \<and> patch = Empty then Merged Empty
      else if base = Empty then Merged patch
      else if patch = Empty then Merged base
      else
        case unmarshal_map base of
          Inl err \<Rightarrow> MergeError (''shallowMergeJSON base: '' @ err)
        | Inr baseMap \<Rightarrow>
            (case unmarshal_map patch of
               Inl err \<Rightarrow> MergeError (''shallowMergeJSON patch: '' @ err)
             | Inr patchMap \<Rightarrow>
                 (case assign_all baseMap patchMap of
                    None \<Rightarrow> NilMapPanic
                  | Some m \<Rightarrow>
                      (case marshal_map m of
                         Inl err \<Rightarrow> MergeError (''shallowMergeJSON marshal: '' @ err)
                       | Inr result \<Rightarrow> Merged result))))"

subsection \<open>Results\<close>

record Result =
  ExitCode :: int
  Output :: bytes

definition denyResult :: "string \<Rightarrow> string \<Rightarrow> Result" where
  "denyResult eventName reason =
     (let out = \<lparr>HookSpecificOutput =
                   \<lparr>HookSpecificOutput.HookEventName = eventName,
                    PermissionDecision = ''deny'',
                    PermissionDecisionReason = reason,
                    UpdatedInput = Empty, AdditionalContext = ''''\<rparr>,
                 Continue = None, SuppressOutput = None, SystemMessage = ''''\<rparr>
      in case marshal_Output out of
           Inl err \<Rightarrow>
             \<lparr>Result.ExitCode = 2,
              Output = Text (JObject [(''hookSpecificOutput'', JObject
                         [(''permissionDecision'', JString ''deny''),
                          (''permissionDecisionReason'',
                           JString ''hook-chain: internal error'')])])\<rparr>
         | Inr data \<Rightarrow> \<lparr>Result.ExitCode = 2, Output = data\<rparr>)"

definition buildDecisionResult :: "string \<Rightarrow> string \<Rightarrow> string \<Rightarrow> Result" where
  "buildDecisionResult eventName decision reason =
     (let out = \<lparr>HookSpecificOutput =
                   \<lparr>HookSpecificOutput.HookEventName = eventName,
                    PermissionDecision = decision,
                    PermissionDecisionReason = reason,
                    UpdatedInput = Empty, AdditionalContext = ''''\<rparr>,
                 Continue = None, SuppressOutput = None, SystemMessage = ''''\<rparr>
      in case marshal_Output out of
           Inl err \<Rightarrow> \<lparr>Result.ExitCode = 2, Output = Empty\<rparr>
         | Inr data \<Rightarrow>
             \<lparr>Result.ExitCode = (if decision = ''deny'' then 2 else 0), Output = data\<rparr>)"

text \<open>\<^verbatim>\<open>normalizeJSON\<close>. Where \<^verbatim>\<open>json.Unmarshal\<close> fails, which for a JSON text it does on a
  number out of the range of \<^verbatim>\<open>float64\<close>, the bytes are returned as they are. \<^verbatim>\<open>Run\<close> compares
  what is returned byte by byte: two texts returned as they are differ when their syntax
  trees do, and that is all the representation tells of them; it does not tell whether two
  texts with the same syntax tree are written with the same white space and the same string
  escapes. \<^verbatim>\<open>json.Marshal\<close> of a value that \<^verbatim>\<open>json.Unmarshal\<close> has just produced does not fail,
  so the second \<^verbatim>\<open>return data\<close> has no branch here.\<close>

definition normalizeJSON :: "f64 \<Rightarrow> bytes \<Rightarrow> bytes" where
  "normalizeJSON f data =
     (if data = Empty then Empty
      else case unmarshal_any f data of
             Inl err \<Rightarrow> data
           | Inr v \<Rightarrow> Text (marshal_any v))"

text \<open>\<^verbatim>\<open>recordAudit\<close>: the error of \<^verbatim>\<open>RecordChain\<close> is logged and dropped. The summary of the
  tool input for display (\<^verbatim>\<open>ToolDetail\<close>) is left out of the entry.\<close>

definition recordAudit ::
  "'a Auditor option \<Rightarrow> Input \<Rightarrow> int \<Rightarrow> string \<Rightarrow> string \<Rightarrow> HookResult list \<Rightarrow> 'a \<Rightarrow> 'a" where
  "recordAudit auditor input chainLen outcome reason hookResults a =
     (case auditor of
        None \<Rightarrow> a
      | Some RecordChain \<Rightarrow>
          (let entry = \<lparr>EventName = Input.HookEventName input,
                        ChainExecution.ToolName = Input.ToolName input,
                        ChainLen = chainLen,
                        ChainExecution.Outcome = outcome,
                        Reason = reason,
                        ChainExecution.SessionID = Input.SessionID input,
                        Hooks = hookResults\<rparr>
           in snd (RecordChain a entry)))"

subsection \<open>\<^verbatim>\<open>Run\<close>\<close>

text \<open>What one pass through the body of the \<^verbatim>\<open>for\<close> loop does: it goes on to the next hook
  with new values of \<^verbatim>\<open>accumulated\<close>, \<^verbatim>\<open>contextParts\<close> and \<^verbatim>\<open>hookResults\<close>, or it returns
  from \<^verbatim>\<open>Run\<close> after \<^verbatim>\<open>recordAudit\<close>, or it panics.\<close>

datatype ('w, 'a) step =
    Continue bytes "string list" "HookResult list" 'w
  | Return Result 'w 'a
  | Panic 'w

text \<open>The end of the loop body, from \<^verbatim>\<open>// Collect additionalContext\<close> on.\<close>

definition collect ::
  "int \<Rightarrow> HookEntry \<Rightarrow> HookSpecificOutput \<Rightarrow> string \<Rightarrow> bytes \<Rightarrow> string list \<Rightarrow>
   HookResult list \<Rightarrow> 'w \<Rightarrow> ('w, 'a) step" where
  "collect i h hso hookOutcome accumulated contextParts hookResults w =
     (let hasContext = AdditionalContext hso \<noteq> '''';
          contextParts =
            (if hasContext then contextParts @ [AdditionalContext hso] else contextParts);
          hookOutcome =
            (if hasContext \<and> hookOutcome = ''pass'' then ''context'' else hookOutcome)
      in Continue accumulated contextParts
           (hookResults @
              [\<lparr>HookIndex = i, HookName = Name h, HookResult.ExitCode = 0,
                HookResult.Outcome = hookOutcome, HookResult.Stderr = ''''\<rparr>]) w)"

definition hook_step ::
  "isPrint \<Rightarrow> 'w Runner \<Rightarrow> 'a Auditor option \<Rightarrow> Input \<Rightarrow> int \<Rightarrow> int \<Rightarrow> HookEntry \<Rightarrow> bytes \<Rightarrow>
   string list \<Rightarrow> HookResult list \<Rightarrow> 'w \<Rightarrow> 'a \<Rightarrow> ('w, 'a) step" where
  "hook_step p r auditor input n i h accumulated contextParts hookResults w a =
     (let subInput = WithToolInput input accumulated in
      case Encode subInput of
        Inl err \<Rightarrow>
          Return
            (denyResult (Input.HookEventName input)
               (''hook-chain: failed to marshal input for hook '' @ quote p (Name h) @ '': '' @ err))
            w
            (recordAudit auditor input n ''error''
               (''marshal input for hook '' @ quote p (Name h) @ '': '' @ err) hookResults a)
      | Inr inputBytes \<Rightarrow>
          (case r w h inputBytes of
             (Inl err, w') \<Rightarrow>
               if EffectiveOnError h = ''skip'' then
                 Continue accumulated contextParts
                   (hookResults @
                      [\<lparr>HookIndex = i, HookName = Name h, HookResult.ExitCode = - 1,
                        HookResult.Outcome = ''skip'',
                        HookResult.Stderr = TruncateStderr err 512\<rparr>]) w'
               else
                 Return
                   (denyResult (Input.HookEventName input)
                      (''hook-chain: hook '' @ quote p (Name h) @ '' failed: '' @ err))
                   w'
                   (recordAudit auditor input n ''error''
                      (''hook '' @ quote p (Name h) @ '' runner error: '' @ err)
                      (hookResults @
                         [\<lparr>HookIndex = i, HookName = Name h, HookResult.ExitCode = - 1,
                           HookResult.Outcome = ''error'',
                           HookResult.Stderr = TruncateStderr err 512\<rparr>]) a)
           | (Inr runRes, w') \<Rightarrow>
               if runner_Result.ExitCode runRes = 2 then
                 (let reason =
                        (if runner_Result.Stderr runRes \<noteq> '''' then runner_Result.Stderr runRes
                         else ''hook '' @ quote p (Name h) @ '' denied (exit 2)'')
                  in Return (denyResult (Input.HookEventName input) reason) w'
                       (recordAudit auditor input n ''deny'' reason
                          (hookResults @
                             [\<lparr>HookIndex = i, HookName = Name h, HookResult.ExitCode = 2,
                               HookResult.Outcome = ''deny'',
                               HookResult.Stderr =
                                 TruncateStderr (runner_Result.Stderr runRes) 512\<rparr>]) a))
               else if runner_Result.ExitCode runRes \<noteq> 0 then
                 (if EffectiveOnError h = ''skip'' then
                    Continue accumulated contextParts
                      (hookResults @
                         [\<lparr>HookIndex = i, HookName = Name h,
                           HookResult.ExitCode = runner_Result.ExitCode runRes,
                           HookResult.Outcome = ''skip'',
                           HookResult.Stderr =
                             TruncateStderr (runner_Result.Stderr runRes) 512\<rparr>]) w'
                  else
                    (let reason =
                           (if runner_Result.Stderr runRes \<noteq> ''''
                            then runner_Result.Stderr runRes
                            else ''hook '' @ quote p (Name h) @ '' failed (exit '' @
                                 show_int (runner_Result.ExitCode runRes) @ '')'')
                     in Return (denyResult (Input.HookEventName input) reason) w'
                          (recordAudit auditor input n ''deny'' reason
                             (hookResults @
                                [\<lparr>HookIndex = i, HookName = Name h,
                                  HookResult.ExitCode = runner_Result.ExitCode runRes,
                                  HookResult.Outcome = ''deny'',
                                  HookResult.Stderr =
                                    TruncateStderr (runner_Result.Stderr runRes) 512\<rparr>]) a)))
               else
                 (let stdout = TrimSpace (Stdout runRes) in
                  if stdout = Empty then
                    Continue accumulated contextParts
                      (hookResults @
                         [\<lparr>HookIndex = i, HookName = Name h, HookResult.ExitCode = 0,
                           HookResult.Outcome = ''pass'', HookResult.Stderr = ''''\<rparr>]) w'
                  else
                    case unmarshal_Output stdout of
                      Inl err \<Rightarrow>
                        if EffectiveOnError h = ''skip'' then
                          Continue accumulated contextParts
                            (hookResults @
                               [\<lparr>HookIndex = i, HookName = Name h, HookResult.ExitCode = 0,
                                 HookResult.Outcome = ''skip'',
                                 HookResult.Stderr = TruncateStderr err 512\<rparr>]) w'
                        else
                          Return
                            (denyResult (Input.HookEventName input)
                               (''hook-chain: hook '' @ quote p (Name h) @
                                '' returned invalid JSON: '' @ err))
                            w'
                            (recordAudit auditor input n ''error''
                               (''hook '' @ quote p (Name h) @ '' invalid JSON: '' @ err)
                               (hookResults @
                                  [\<lparr>HookIndex = i, HookName = Name h, HookResult.ExitCode = 0,
                                    HookResult.Outcome = ''error'',
                                    HookResult.Stderr = TruncateStderr err 512\<rparr>]) a)
                    | Inr output \<Rightarrow>
                        (let hso = HookSpecificOutput output in
                         if PermissionDecision hso = ''deny'' then
                           Return
                             (buildDecisionResult (Input.HookEventName input) ''deny''
                                (PermissionDecisionReason hso))
                             w'
                             (recordAudit auditor input n ''deny'' (PermissionDecisionReason hso)
                                (hookResults @
                                   [\<lparr>HookIndex = i, HookName = Name h, HookResult.ExitCode = 0,
                                     HookResult.Outcome = ''deny'',
                                     HookResult.Stderr = ''''\<rparr>]) a)
                         else if PermissionDecision hso = ''ask'' then
                           Return
                             (buildDecisionResult (Input.HookEventName input) ''ask''
                                (PermissionDecisionReason hso))
                             w'
                             (recordAudit auditor input n ''ask'' (PermissionDecisionReason hso)
                                (hookResults @
                                   [\<lparr>HookIndex = i, HookName = Name h, HookResult.ExitCode = 0,
                                     HookResult.Outcome = ''ask'',
                                     HookResult.Stderr = ''''\<rparr>]) a)
                         else if UpdatedInput hso \<noteq> Empty then
                           (case shallowMergeJSON accumulated (UpdatedInput hso) of
                              NilMapPanic \<Rightarrow> Panic w'
                            | MergeError err \<Rightarrow>
                                Return
                                  (denyResult (Input.HookEventName input)
                                     (''hook-chain: failed to merge updatedInput from hook '' @
                                      quote p (Name h) @ '': '' @ err))
                                  w'
                                  (recordAudit auditor input n ''error''
                                     (''merge updatedInput from hook '' @ quote p (Name h) @
                                      '': '' @ err)
                                     (hookResults @
                                        [\<lparr>HookIndex = i, HookName = Name h,
                                          HookResult.ExitCode = 0,
                                          HookResult.Outcome = ''error'',
                                          HookResult.Stderr = TruncateStderr err 512\<rparr>]) a)
                            | Merged merged \<Rightarrow>
                                collect i h hso ''merge'' merged contextParts hookResults w')
                         else
                           collect i h hso ''pass'' accumulated contextParts hookResults w'))))"

text \<open>The code after the loop.\<close>

definition finish ::
  "f64 \<Rightarrow> 'a Auditor option \<Rightarrow> Input \<Rightarrow> int \<Rightarrow> bytes \<Rightarrow> bytes \<Rightarrow> string list \<Rightarrow>
   HookResult list \<Rightarrow> 'a \<Rightarrow> Result \<times> 'a" where
  "finish f auditor input n originalToolInput accumulated contextParts hookResults a =
     (let changed = (normalizeJSON f accumulated \<noteq> normalizeJSON f originalToolInput);
          hasContext = (contextParts \<noteq> [])
      in if \<not> changed \<and> \<not> hasContext then
           (\<lparr>Result.ExitCode = 0, Output = Empty\<rparr>,
            recordAudit auditor input n ''allow'' '''' hookResults a)
         else
           (let out = \<lparr>HookSpecificOutput =
                         \<lparr>HookSpecificOutput.HookEventName = Input.HookEventName input,
                          PermissionDecision = '''',
                          PermissionDecisionReason = '''',
                          UpdatedInput = (if changed then accumulated else Empty),
                          AdditionalContext =
                            (if hasContext then Join contextParts [CHR 0x0A] else '''')\<rparr>,
                       Continue = None, SuppressOutput = None, SystemMessage = ''''\<rparr>
            in case marshal_Output out of
                 Inl err \<Rightarrow>
                   (denyResult (Input.HookEventName input)
                      (''hook-chain: failed to marshal final output: '' @ err),
                    recordAudit auditor input n ''error''
                      (''marshal final output: '' @ err) hookResults a)
               | Inr data \<Rightarrow>
                   (\<lparr>Result.ExitCode = 0, Output = data\<rparr>,
                    recordAudit auditor input n ''allow'' '''' hookResults a)))"

datatype 'r go = Returned 'r | Panicked

text \<open>The \<^verbatim>\<open>for i, h := range hooks\<close> loop, from hook \<open>i\<close> on, and the code after it.\<close>

fun loop ::
  "f64 \<Rightarrow> isPrint \<Rightarrow> 'w Runner \<Rightarrow> 'a Auditor option \<Rightarrow> Input \<Rightarrow> int \<Rightarrow> int \<Rightarrow> HookEntry list \<Rightarrow>
   bytes \<Rightarrow> string list \<Rightarrow> HookResult list \<Rightarrow> 'w \<Rightarrow> 'a \<Rightarrow> Result go \<times> 'w \<times> 'a" where
  "loop f p r auditor input n i [] accumulated contextParts hookResults w a =
     (case finish f auditor input n (ToolInput input) accumulated contextParts hookResults a of
        (res, a') \<Rightarrow> (Returned res, w, a'))"
| "loop f p r auditor input n i (h # hs) accumulated contextParts hookResults w a =
     (case hook_step p r auditor input n i h accumulated contextParts hookResults w a of
        Continue accumulated' contextParts' hookResults' w' \<Rightarrow>
          loop f p r auditor input n (i + 1) hs accumulated' contextParts' hookResults' w' a
      | Return res w' a' \<Rightarrow> (Returned res, w', a')
      | Panic w' \<Rightarrow> (Panicked, w', a))"

definition Run ::
  "f64 \<Rightarrow> isPrint \<Rightarrow> Input \<Rightarrow> HookEntry list \<Rightarrow> 'w Runner \<Rightarrow> 'a Auditor option \<Rightarrow> 'w \<Rightarrow> 'a \<Rightarrow>
   Result go \<times> 'w \<times> 'a" where
  "Run f p input hooks r auditor w a =
     (if hooks = [] then
        (Returned \<lparr>Result.ExitCode = 0, Output = Empty\<rparr>, w,
         recordAudit auditor input 0 ''allow'' '''' [] a)
      else
        loop f p r auditor input (int (length hooks)) 0 hooks (ToolInput input) [] [] w a)"

section \<open>The test doubles of the pipeline tests\<close>

record mockRunner =
  results :: "(string + runner_Result) list"
  calls :: "(string \<times> bytes) list"
  callIdx :: nat

definition mockRunner_Run :: "mockRunner Runner" where
  "mockRunner_Run m h input =
     (let m = m\<lparr>calls := calls m @ [(Name h, input)]\<rparr> in
      if callIdx m \<ge> length (results m) then
        (Inr \<lparr>runner_Result.ExitCode = 0, Stdout = Empty, runner_Result.Stderr = ''''\<rparr>, m)
      else (results m ! callIdx m, m\<lparr>callIdx := callIdx m + 1\<rparr>))"

text \<open>\<^verbatim>\<open>mockAuditor\<close>: the store is the list of entries recorded so far; \<open>err\<close> is what
  \<^verbatim>\<open>RecordChain\<close> returns.\<close>

definition mockAuditor :: "string option \<Rightarrow> ChainExecution list Auditor" where
  "mockAuditor err entries entry = (err, entries @ [entry])"

definition makeInput :: "json \<Rightarrow> string + Input" where
  "makeInput toolInput =
     Decode (Text (JObject [(''hook_event_name'', JString ''PreToolUse''),
                            (''tool_name'', JString ''Bash''),
                            (''tool_input'', toolInput)]))"

section \<open>Notions for stating the properties\<close>

text \<open>The value of a key of an object as the library reads it: the last member with that
  key.\<close>

definition member_of :: "(string \<times> 'v) list \<Rightarrow> string \<Rightarrow> 'v option" where
  "member_of kvs k = map_of (rev kvs) k"

fun top_keys :: "bytes \<Rightarrow> string set" where
  "top_keys (Text (JObject kvs)) = fst ` set kvs"
| "top_keys b = {}"

text \<open>A byte slice that a successful decode can have produced: nothing, or a JSON text.\<close>

fun well_formed :: "bytes \<Rightarrow> bool" where
  "well_formed Empty = True"
| "well_formed (Text j) = True"
| "well_formed b = False"

fun object_or_null :: "bytes \<Rightarrow> bool" where
  "object_or_null (Text JNull) = True"
| "object_or_null (Text (JObject kvs)) = True"
| "object_or_null b = False"

text \<open>The state \<^verbatim>\<open>Running(index, accumulatedState, contextList)\<close> in which the fold stands
  after the hooks given, when none of them has ended the run; \<open>None\<close> when one has. Whether
  the loop goes on does not depend on the auditor, so the loop body is taken without one.\<close>

fun advance ::
  "isPrint \<Rightarrow> 'w Runner \<Rightarrow> Input \<Rightarrow> int \<Rightarrow> HookEntry list \<Rightarrow> bytes \<Rightarrow> string list \<Rightarrow>
   HookResult list \<Rightarrow> 'w \<Rightarrow> (bytes \<times> string list \<times> HookResult list \<times> 'w) option" where
  "advance p r input i [] accumulated contextParts hookResults w =
     Some (accumulated, contextParts, hookResults, w)"
| "advance p r input i (h # hs) accumulated contextParts hookResults w =
     (case hook_step p r (None :: unit Auditor option) input 0 i h accumulated contextParts
             hookResults w () of
        Continue accumulated' contextParts' hookResults' w' \<Rightarrow>
          advance p r input (i + 1) hs accumulated' contextParts' hookResults' w'
      | Return res w' a' \<Rightarrow> None
      | Panic w' \<Rightarrow> None)"

text \<open>The state in which \<^verbatim>\<open>Run\<close> comes to the hook at position \<open>k\<close> of the chain.\<close>

definition running ::
  "isPrint \<Rightarrow> 'w Runner \<Rightarrow> Input \<Rightarrow> HookEntry list \<Rightarrow> nat \<Rightarrow> 'w \<Rightarrow>
   (bytes \<times> string list \<times> HookResult list \<times> 'w) option" where
  "running p r input hooks k w = advance p r input 0 (take k hooks) (ToolInput input) [] [] w"

text \<open>A step of the loop with what it did to the auditor's store left out.\<close>

fun erase :: "('w, 'a) step \<Rightarrow> ('w, unit) step" where
  "erase (Continue accumulated contextParts hookResults w) =
     Continue accumulated contextParts hookResults w"
| "erase (Return res w a) = Return res w ()"
| "erase (Panic w) = Panic w"








definition texts :: "(string \<times> json) list \<Rightarrow> rawmap" where
  "texts js = map (\<lambda>(k, j). (k, Text j)) js"

definition merge_objects :: "(string \<times> json) list \<Rightarrow> (string \<times> json) list \<Rightarrow> (string \<times> json) list" where
  "merge_objects b p =
     sort_key fst (fold (\<lambda>(k, v). AList.update k v) (fold (\<lambda>(k, v). AList.update k v) p [])
                     (fold (\<lambda>(k, v). AList.update k v) b []))"

definition decision_Output :: "string \<Rightarrow> string \<Rightarrow> string \<Rightarrow> Output" where
  "decision_Output eventName decision reason =
     \<lparr>HookSpecificOutput =
        \<lparr>HookSpecificOutput.HookEventName = eventName, PermissionDecision = decision,
         PermissionDecisionReason = reason, UpdatedInput = Empty, AdditionalContext = ''''\<rparr>,
      Continue = None, SuppressOutput = None, SystemMessage = ''''\<rparr>"

definition decision_body :: "string \<Rightarrow> string \<Rightarrow> string \<Rightarrow> bytes" where
  "decision_body eventName decision reason =
     Text (JObject [(''hookSpecificOutput'', JObject
       (omit_string ''hookEventName'' eventName @
        omit_string ''permissionDecision'' decision @
        omit_string ''permissionDecisionReason'' reason))])"

definition hook :: "string \<Rightarrow> string \<Rightarrow> HookEntry" where
  "hook name onError =
     \<lparr>Name = name, Command = name, Args = [], Timeout = 0, Env = [], OnError = onError\<rparr>"

definition ls_input :: Input where
  "ls_input =
     \<lparr>Input.SessionID = '''', TranscriptPath = '''', CWD = '''', PermissionMode = '''',
      HookEventName = ''PreToolUse'', ToolName = ''Bash'', ToolUseID = '''',
      ToolInput = Text (JObject [(''command'', JString ''ls'')]),
      rawFields = Some [(''hook_event_name'', Text (JString ''PreToolUse'')),
                        (''tool_name'', Text (JString ''Bash'')),
                        (''tool_input'', Text (JObject [(''command'', JString ''ls'')]))]\<rparr>"

definition ls_stdin :: bytes where
  "ls_stdin =
     Text (JObject [(''hook_event_name'', JString ''PreToolUse''),
                    (''tool_input'', JObject [(''command'', JString ''ls'')]),
                    (''tool_name'', JString ''Bash'')])"

definition exited :: "int \<Rightarrow> bytes \<Rightarrow> string \<Rightarrow> string + runner_Result" where
  "exited code out err =
     Inr \<lparr>runner_Result.ExitCode = code, Stdout = out, runner_Result.Stderr = err\<rparr>"

definition mock :: "(string + runner_Result) list \<Rightarrow> mockRunner" where
  "mock rs = \<lparr>results = rs, calls = [], callIdx = 0\<rparr>"

definition no_f64 :: f64 where
  "no_f64 n = Some n"

definition no_isPrint :: isPrint where
  "no_isPrint r = False"

definition json_output :: "(string \<times> json) list \<Rightarrow> bytes" where
  "json_output kvs = Text (JObject [(''hookSpecificOutput'', JObject kvs)])"

text \<open>What \<^verbatim>\<open>on_error: skip\<close> is said to absorb: a launch error, an exit code other than 0 and 2,
  or stdout on exit 0 that, with the white space at its ends taken off, is not empty and does
  not decode as an \<^verbatim>\<open>Output\<close>.\<close>

fun absorbable :: "string + runner_Result \<Rightarrow> bool" where
  "absorbable (Inl err) = True"
| "absorbable (Inr runRes) =
     (if runner_Result.ExitCode runRes = 0
      then TrimSpace (Stdout runRes) \<noteq> Empty \<and> isl (unmarshal_Output (TrimSpace (Stdout runRes)))
      else runner_Result.ExitCode runRes \<noteq> 2)"

text \<open>What it is said never to absorb: exit code 2, or an explicit deny or ask decision.\<close>

fun veto :: "string + runner_Result \<Rightarrow> bool" where
  "veto (Inl err) = False"
| "veto (Inr runRes) =
     (if runner_Result.ExitCode runRes = 0
      then (case unmarshal_Output (TrimSpace (Stdout runRes)) of
              Inl err \<Rightarrow> False
            | Inr output \<Rightarrow>
                PermissionDecision (HookSpecificOutput output) = ''deny'' \<or>
                PermissionDecision (HookSpecificOutput output) = ''ask'')
      else runner_Result.ExitCode runRes = 2)"

fun is_object :: "bytes \<Rightarrow> bool" where
  "is_object (Text (JObject kvs)) = True"
| "is_object b = False"

definition called :: "(string + runner_Result) list \<Rightarrow> (string \<times> bytes) list \<Rightarrow> mockRunner" where
  "called rs cs = \<lparr>results = rs, calls = cs, callIdx = length cs\<rparr>"

definition rewrite_output :: bytes where
  "rewrite_output =
     json_output [(''updatedInput'', JObject [(''command'', JString ''ls -la'')]),
                  (''additionalContext'', JString ''rewritten'')]"

definition deny_output :: bytes where
  "deny_output =
     json_output [(''permissionDecision'', JString ''deny''),
                  (''permissionDecisionReason'', JString ''blocked'')]"

definition la_stdin :: bytes where
  "la_stdin =
     Text (JObject [(''hook_event_name'', JString ''PreToolUse''),
                    (''tool_input'', JObject [(''command'', JString ''ls -la'')]),
                    (''tool_name'', JString ''Bash'')])"

definition number_output :: bytes where
  "number_output = json_output [(''updatedInput'', JNumber ''42'')]"

definition audit_entry :: "Input \<Rightarrow> int \<Rightarrow> string \<Rightarrow> string \<Rightarrow> HookResult list \<Rightarrow> ChainExecution" where
  "audit_entry input chainLen outcome reason hookResults =
     \<lparr>EventName = Input.HookEventName input,
      ChainExecution.ToolName = Input.ToolName input,
      ChainLen = chainLen,
      ChainExecution.Outcome = outcome,
      Reason = reason,
      ChainExecution.SessionID = Input.SessionID input,
      Hooks = hookResults\<rparr>"

text \<open>What \<^verbatim>\<open>Run\<close> returns and what it does to the runner do not depend on the auditor.\<close>

fun forget :: "'r \<times> 'w \<times> 'a \<Rightarrow> 'r \<times> 'w" where
  "forget (result, w, a) = (result, w)"

definition null_input :: Input where
  "null_input =
     \<lparr>Input.SessionID = '''', TranscriptPath = '''', CWD = '''', PermissionMode = '''',
      HookEventName = ''PreToolUse'', ToolName = ''Bash'', ToolUseID = '''',
      ToolInput = Text JNull,
      rawFields = Some [(''hook_event_name'', Text (JString ''PreToolUse'')),
                        (''tool_name'', Text (JString ''Bash'')),
                        (''tool_input'', Text JNull)]\<rparr>"

definition null_stdin :: bytes where
  "null_stdin =
     Text (JObject [(''hook_event_name'', JString ''PreToolUse''),
                    (''tool_input'', JNull),
                    (''tool_name'', JString ''Bash'')])"

definition put_json :: "string \<Rightarrow> string \<Rightarrow> (string \<times> json) list \<Rightarrow> (string \<times> json) list" where
  "put_json key field out = (if field \<noteq> '''' then AList.update key (JString field) out else out)"

text \<open>The value of a top-level key of a JSON text, as the library reads it.\<close>

fun top_member :: "bytes \<Rightarrow> string \<Rightarrow> json option" where
  "top_member (Text (JObject kvs)) k = member_of kvs k"
| "top_member b k = None"

definition roundtrip_envelope :: bytes where
  "roundtrip_envelope =
     Text (JObject [(''session_id'', JString ''abc-123''),
                    (''hook_event_name'', JString ''PreToolUse''),
                    (''tool_name'', JString ''Bash''),
                    (''tool_input'', JObject [(''command'', JString ''ls -la'')]),
                    (''unknownField'', JString ''should survive''),
                    (''anotherUnknown'', JNumber ''42'')])"

definition roundtrip_input :: Input where
  "roundtrip_input =
     \<lparr>Input.SessionID = ''abc-123'', TranscriptPath = '''', CWD = '''', PermissionMode = '''',
      HookEventName = ''PreToolUse'', ToolName = ''Bash'', ToolUseID = '''',
      ToolInput = Text (JObject [(''command'', JString ''ls -la'')]),
      rawFields = Some [(''session_id'', Text (JString ''abc-123'')),
                        (''hook_event_name'', Text (JString ''PreToolUse'')),
                        (''tool_name'', Text (JString ''Bash'')),
                        (''tool_input'', Text (JObject [(''command'', JString ''ls -la'')])),
                        (''unknownField'', Text (JString ''should survive'')),
                        (''anotherUnknown'', Text (JNumber ''42''))]\<rparr>"

text \<open>Bytes that are no JSON text.\<close>

fun malformed :: "bytes \<Rightarrow> bool" where
  "malformed (Text j) = False"
| "malformed b = True"

text \<open>The values a known string field of the envelope may have for \<^verbatim>\<open>Decode\<close> to accept it:
  a string, \<^verbatim>\<open>null\<close>, or no such key.\<close>

fun string_or_null :: "json option \<Rightarrow> bool" where
  "string_or_null None = True"
| "string_or_null (Some JNull) = True"
| "string_or_null (Some (JString s)) = True"
| "string_or_null (Some j) = False"

definition string_keys :: "string list" where
  "string_keys =
     [''session_id'', ''transcript_path'', ''cwd'', ''permission_mode'', ''hook_event_name'',
      ''tool_name'', ''tool_use_id'']"




definition ba_input :: Input where
  "ba_input =
     \<lparr>Input.SessionID = '''', TranscriptPath = '''', CWD = '''', PermissionMode = '''',
      HookEventName = ''PreToolUse'', ToolName = ''Bash'', ToolUseID = '''',
      ToolInput = Text (JObject [(''b'', JNumber ''2''), (''a'', JNumber ''1'')]),
      rawFields = Some [(''hook_event_name'', Text (JString ''PreToolUse'')),
                        (''tool_name'', Text (JString ''Bash'')),
                        (''tool_input'',
                         Text (JObject [(''b'', JNumber ''2''), (''a'', JNumber ''1'')]))]\<rparr>"



text \<open>The input that \<^verbatim>\<open>makeInput\<close> builds for a tool input, and what a hook is given that runs
  first on it.\<close>

definition tool_call :: "json \<Rightarrow> Input" where
  "tool_call toolInput =
     \<lparr>Input.SessionID = '''', TranscriptPath = '''', CWD = '''', PermissionMode = '''',
      HookEventName = ''PreToolUse'', ToolName = ''Bash'', ToolUseID = '''',
      ToolInput = Text toolInput,
      rawFields = Some [(''hook_event_name'', Text (JString ''PreToolUse'')),
                        (''tool_name'', Text (JString ''Bash'')),
                        (''tool_input'', Text toolInput)]\<rparr>"








section \<open>Properties\<close>

subsection \<open>Association lists\<close>

lemma map_of_fold_update:
  "map_of (fold (\<lambda>(k, v). AList.update k (g v)) kvs m) =
   map_of m ++ map_of (rev (map (\<lambda>(k, v). (k, g v)) kvs))"
proof (induction kvs arbitrary: m)
  case Nil
  then show ?case by simp
next
  case (Cons kv kvs)
  obtain k v where kv: "kv = (k, v)" by (cases kv)
  show ?case
    by (simp add: kv Cons.IH update_conv' map_add_def fun_eq_iff split: option.splits)
qed

lemma distinct_fold_update:
  "distinct (map fst m) \<Longrightarrow> distinct (map fst (fold (\<lambda>(k, v). AList.update k (g v)) kvs m))"
  by (induction kvs arbitrary: m) (auto simp: distinct_update)

lemma member_of_distinct:
  assumes "distinct (map fst m)"
  shows "member_of m = map_of m"
proof -
  have "distinct (map fst (rev m))"
    using assms by (simp add: rev_map [symmetric])
  then have "map_of (rev m) = map_of m"
    using assms by (simp add: map_of_inject_set)
  then show ?thesis
    by (simp add: member_of_def fun_eq_iff)
qed

lemma distinct_fst_sort_key:
  "distinct (map fst m) \<Longrightarrow> distinct (map fst (sort_key fst m))"
  by (simp add: distinct_map)

lemma map_of_sort_key:
  "distinct (map fst m) \<Longrightarrow> map_of (sort_key fst m) = map_of m"
  by (simp add: map_of_inject_set distinct_fst_sort_key)

lemma member_of_sort_key:
  "distinct (map fst m) \<Longrightarrow> member_of (sort_key fst m) = map_of m"
  by (simp add: member_of_distinct distinct_fst_sort_key map_of_sort_key)

lemma map_of_map_snd:
  "map_of (map (\<lambda>(k, v). (k, g v)) xs) k = map_option g (map_of xs k)"
  by (induction xs) auto

lemma map_of_fold_update_member:
  "map_of (fold (\<lambda>(k, v). AList.update k (g v)) kvs m) k =
   (case member_of kvs k of Some v \<Rightarrow> Some (g v) | None \<Rightarrow> map_of m k)"
proof -
  have "map_of (rev (map (\<lambda>(k, v). (k, g v)) kvs)) k = map_option g (map_of (rev kvs) k)"
    by (simp only: rev_map map_of_map_snd)
  then show ?thesis
    by (simp add: map_of_fold_update member_of_def map_add_def split: option.splits)
qed

lemma map_of_fold_update_plain:
  "map_of (fold (\<lambda>(k, v). AList.update k v) kvs m) k =
   (case member_of kvs k of Some v \<Rightarrow> Some v | None \<Rightarrow> map_of m k)"
  using map_of_fold_update_member [of "\<lambda>v. v" kvs m k] by simp

lemma distinct_fold_update_plain:
  "distinct (map fst m) \<Longrightarrow> distinct (map fst (fold (\<lambda>(k, v). AList.update k v) kvs m))"
  using distinct_fold_update [of m "\<lambda>v. v" kvs] by simp

subsection \<open>Raw maps whose values are JSON texts\<close>

lemma texts_simps [simp]:
  "texts [] = []"
  "texts ((k, j) # m) = (k, Text j) # texts m"
  by (simp_all add: texts_def)

lemma update_texts: "AList.update k (Text v) (texts m) = texts (AList.update k v m)"
  by (induction m) (auto simp: texts_def)

lemma fold_update_texts:
  "fold (\<lambda>(k, v). AList.update k (Text v)) kvs (texts m) =
   texts (fold (\<lambda>(k, v). AList.update k v) kvs m)"
  by (induction kvs arbitrary: m) (auto simp: update_texts)

lemma fold_update_texts':
  "fold (\<lambda>(k, v). AList.update k v) (texts kvs) (texts m) =
   texts (fold (\<lambda>(k, v). AList.update k v) kvs m)"
  by (induction kvs arbitrary: m) (auto simp: update_texts)

lemma insort_key_texts:
  "insort_key fst (k, Text j) (texts m) = texts (insort_key fst (k, j) m)"
  by (induction m) (auto simp: texts_def)

lemma sort_key_texts: "sort_key fst (texts m) = texts (sort_key fst m)"
proof (induction m)
  case Nil
  then show ?case by (simp add: texts_def)
next
  case (Cons kv m)
  obtain k j where kv: "kv = (k, j)" by (cases kv)
  have "texts (kv # m) = (k, Text j) # texts m"
    by (simp add: kv texts_def)
  then show ?case
    using Cons.IH by (simp add: kv insort_key_texts)
qed

lemma marshal_members_texts: "marshal_members (texts js) = Inr js"
  by (induction js) (auto simp: texts_def bind_err_def)

lemma marshal_map_texts:
  "marshal_map (Some (texts m)) = Inr (Text (JObject (sort_key fst m)))"
  by (simp add: sort_key_texts marshal_members_texts bind_err_def)

lemma unmarshal_map_object:
  "unmarshal_map (Text (JObject kvs)) = Inr (Some (texts (fold (\<lambda>(k, v). AList.update k v) kvs [])))"
  using fold_update_texts [of kvs "[]"] by (simp add: texts_def)

lemma assign_all_texts:
  "assign_all (Some (texts b)) (Some (texts p)) =
   Some (Some (texts (fold (\<lambda>(k, v). AList.update k v) p b)))"
proof (cases p)
  case Nil
  then show ?thesis by (simp add: texts_def)
next
  case (Cons kv p')
  then have "texts p = (fst kv, Text (snd kv)) # texts p'"
    by (simp add: texts_def case_prod_unfold)
  then have "assign_all (Some (texts b)) (Some (texts p)) =
      Some (Some (fold (\<lambda>(k, v). AList.update k v) (texts p) (texts b)))"
    by simp
  then show ?thesis
    by (simp add: fold_update_texts')
qed

subsection \<open>The merge of two objects\<close>

lemma shallowMergeJSON_objects:
  "shallowMergeJSON (Text (JObject b)) (Text (JObject p)) = Merged (Text (JObject (merge_objects b p)))"
  by (simp add: shallowMergeJSON_def unmarshal_map_object assign_all_texts marshal_map_texts
      merge_objects_def del: unmarshal_map.simps assign_all.simps marshal_map.simps)

lemma member_of_merge_objects:
  "member_of (merge_objects b p) k =
   (case member_of p k of Some v \<Rightarrow> Some v | None \<Rightarrow> member_of b k)"
proof -
  let ?b = "fold (\<lambda>(k, v). AList.update k v) b []"
  let ?p = "fold (\<lambda>(k, v). AList.update k v) p []"
  let ?m = "fold (\<lambda>(k, v). AList.update k v) ?p ?b"
  have db: "distinct (map fst ?b)" and dp: "distinct (map fst ?p)"
    by (simp_all add: distinct_fold_update_plain)
  have d: "distinct (map fst ?m)"
    by (rule distinct_fold_update_plain) (rule db)
  have "member_of (sort_key fst ?m) k = map_of ?m k"
    by (simp only: member_of_sort_key [OF d])
  also have "\<dots> = (case member_of ?p k of Some v \<Rightarrow> Some v | None \<Rightarrow> map_of ?b k)"
    by (simp only: map_of_fold_update_plain)
  also have "\<dots> = (case map_of ?p k of Some v \<Rightarrow> Some v | None \<Rightarrow> map_of ?b k)"
    by (simp only: member_of_distinct [OF dp])
  also have "\<dots> = (case member_of p k of Some v \<Rightarrow> Some v | None \<Rightarrow> member_of b k)"
    by (simp add: map_of_fold_update_plain split: option.splits)
  finally show ?thesis
    by (simp only: merge_objects_def)
qed

text \<open>C4: \<^verbatim>\<open>Merge(empty, empty)\<close> is the distinguished "no value", which is not the empty
  object; \<^verbatim>\<open>Merge(B, empty) = B\<close>; \<^verbatim>\<open>Merge(empty, P) = P\<close>; and for two objects the result is
  an object in which a key has the value the patch gives it whenever the patch has the key,
  whatever the shape of that value and of the value in the base, and otherwise the value of
  the base: values are taken whole, never combined.\<close>

theorem merge_identities_and_shallow_union:
  "shallowMergeJSON Empty Empty = Merged Empty \<and>
   Merged Empty \<noteq> Merged (Text (JObject [])) \<and>
   shallowMergeJSON B Empty = Merged B \<and>
   shallowMergeJSON Empty P = Merged P \<and>
   (\<exists>r. shallowMergeJSON (Text (JObject b)) (Text (JObject p)) = Merged (Text (JObject r)) \<and>
        (\<forall>k. member_of r k =
              (case member_of p k of Some v \<Rightarrow> Some v | None \<Rightarrow> member_of b k)))"
proof -
  have "shallowMergeJSON B Empty = Merged B" "shallowMergeJSON Empty P = Merged P"
    by (simp_all add: shallowMergeJSON_def)
  moreover have "\<exists>r. shallowMergeJSON (Text (JObject b)) (Text (JObject p)) = Merged (Text (JObject r)) \<and>
        (\<forall>k. member_of r k =
              (case member_of p k of Some v \<Rightarrow> Some v | None \<Rightarrow> member_of b k))"
    using shallowMergeJSON_objects member_of_merge_objects by blast
  ultimately show ?thesis
    by (simp add: shallowMergeJSON_def)
qed

text \<open>The example of the specification: a nested object is replaced, not merged.\<close>

lemma merge_example:
  "shallowMergeJSON
     (Text (JObject [(''opts'', JObject [(''a'', JNumber ''1''), (''b'', JNumber ''2'')])]))
     (Text (JObject [(''opts'', JObject [(''c'', JNumber ''3'')])])) =
   Merged (Text (JObject [(''opts'', JObject [(''c'', JNumber ''3'')])]))"
  by (simp add: shallowMergeJSON_def bind_err_def)

subsection \<open>The loop\<close>

lemma recordAudit_None [simp]: "recordAudit None input n outcome reason hookResults a = a"
  by (simp add: recordAudit_def)

lemma erase_collect:
  "erase (collect i h hso outcome acc ctx res w) = collect i h hso outcome acc ctx res w"
  by (simp add: collect_def Let_def)

lemma erase_hook_step:
  "erase (hook_step p r auditor input n i h acc ctx res w a) =
   hook_step p r None input 0 i h acc ctx res w ()"
  by (simp add: hook_step_def Let_def erase_collect
      split: sum.splits prod.splits merged.splits)

lemma erase_Continue_iff:
  "erase s = Continue acc ctx res w \<longleftrightarrow> s = Continue acc ctx res w"
  by (cases s) auto

lemma hook_step_Continue_iff:
  "hook_step p r auditor input n i h acc ctx res w a = Continue acc' ctx' res' w' \<longleftrightarrow>
   hook_step p r None input 0 i h acc ctx res w () = Continue acc' ctx' res' w'"
  using erase_Continue_iff [of "hook_step p r auditor input n i h acc ctx res w a" acc' ctx' res' w']
  by (simp only: erase_hook_step)

lemma loop_advance:
  "advance p r input i pre acc ctx res w = Some (acc', ctx', res', w') \<Longrightarrow>
   loop f p r auditor input n i (pre @ rest) acc ctx res w a =
   loop f p r auditor input n (i + int (length pre)) rest acc' ctx' res' w' a"
proof (induction pre arbitrary: i acc ctx res w)
  case Nil
  then show ?case by simp
next
  case (Cons h pre)
  from Cons.prems obtain acc1 ctx1 res1 w1 where
    step: "hook_step p r None input 0 i h acc ctx res w () = Continue acc1 ctx1 res1 w1" and
    rest: "advance p r input (i + 1) pre acc1 ctx1 res1 w1 = Some (acc', ctx', res', w')"
    by (auto split: step.splits)
  from step have "hook_step p r auditor input n i h acc ctx res w a = Continue acc1 ctx1 res1 w1"
    using hook_step_Continue_iff [of p r auditor input n i h acc ctx res w a acc1 ctx1 res1 w1]
    by simp
  then show ?case
    using Cons.IH [OF rest] by (simp add: ac_simps)
qed

lemma Run_running:
  assumes k: "k < length hooks"
    and run: "running p r input hooks k w = Some (acc, ctx, res, w1)"
  shows "Run f p input hooks r auditor w a =
     (case hook_step p r auditor input (int (length hooks)) (int k) (hooks ! k) acc ctx res w1 a of
        Continue acc' ctx' res' w' \<Rightarrow>
          loop f p r auditor input (int (length hooks)) (int k + 1) (drop (Suc k) hooks)
            acc' ctx' res' w' a
      | Return result w' a' \<Rightarrow> (Returned result, w', a')
      | Panic w' \<Rightarrow> (Panicked, w', a))"
proof -
  have split: "hooks = take k hooks @ hooks ! k # drop (Suc k) hooks"
    using k by (simp add: id_take_nth_drop)
  have ne: "hooks \<noteq> []"
    using k by auto
  have len: "int (length (take k hooks)) = int k"
    using k by simp
  have "Run f p input hooks r auditor w a =
      loop f p r auditor input (int (length hooks)) 0
        (take k hooks @ hooks ! k # drop (Suc k) hooks) (ToolInput input) [] [] w a"
    using ne split by (simp add: Run_def)
  also have "\<dots> = loop f p r auditor input (int (length hooks)) (0 + int (length (take k hooks)))
        (hooks ! k # drop (Suc k) hooks) acc ctx res w1 a"
    using run unfolding running_def by (rule loop_advance)
  finally show ?thesis
    by (simp only: len loop.simps add_0)
qed


subsection \<open>The struct codec of \<^verbatim>\<open>Output\<close>\<close>

lemma fold_keys:
  "foldName ''hookEventName'' = ''HOOKEVENTNAME''"
  "foldName ''permissionDecision'' = ''PERMISSIONDECISION''"
  "foldName ''permissionDecisionReason'' = ''PERMISSIONDECISIONREASON''"
  "foldName ''updatedInput'' = ''UPDATEDINPUT''"
  "foldName ''additionalContext'' = ''ADDITIONALCONTEXT''"
  "foldName ''hookSpecificOutput'' = ''HOOKSPECIFICOUTPUT''"
  "foldName ''continue'' = ''CONTINUE''"
  "foldName ''suppressOutput'' = ''SUPPRESSOUTPUT''"
  "foldName ''systemMessage'' = ''SYSTEMMESSAGE''"
  by (simp_all add: upper_def)

lemma hso_member_keys:
  "hso_member (''hookEventName'', v) h =
     bind_err
       (string_value ''HookSpecificOutput.hookSpecificOutput.hookEventName''
          v (HookSpecificOutput.HookEventName h))
       (\<lambda>s. Inr (h\<lparr>HookSpecificOutput.HookEventName := s\<rparr>))"
  "hso_member (''permissionDecision'', v) h =
     bind_err
       (string_value ''HookSpecificOutput.hookSpecificOutput.permissionDecision''
          v (PermissionDecision h))
       (\<lambda>s. Inr (h\<lparr>PermissionDecision := s\<rparr>))"
  "hso_member (''permissionDecisionReason'', v) h =
     bind_err
       (string_value ''HookSpecificOutput.hookSpecificOutput.permissionDecisionReason''
          v (PermissionDecisionReason h))
       (\<lambda>s. Inr (h\<lparr>PermissionDecisionReason := s\<rparr>))"
  "hso_member (''updatedInput'', v) h = Inr (h\<lparr>UpdatedInput := Text v\<rparr>)"
  "hso_member (''additionalContext'', v) h =
     bind_err
       (string_value ''HookSpecificOutput.hookSpecificOutput.additionalContext''
          v (AdditionalContext h))
       (\<lambda>s. Inr (h\<lparr>AdditionalContext := s\<rparr>))"
  by (simp_all add: hso_member_def fold_eq_def fold_keys)

lemma Output_member_keys:
  "Output_member (''hookSpecificOutput'', v) out =
     bind_err (hso_value v (HookSpecificOutput out)) (\<lambda>h. Inr (out\<lparr>HookSpecificOutput := h\<rparr>))"
  "Output_member (''continue'', v) out =
     bind_err (bool_ptr_value ''Output.continue'' v)
            (\<lambda>b. Inr (out\<lparr>Continue := b\<rparr>))"
  "Output_member (''suppressOutput'', v) out =
     bind_err (bool_ptr_value ''Output.suppressOutput'' v)
            (\<lambda>b. Inr (out\<lparr>SuppressOutput := b\<rparr>))"
  "Output_member (''systemMessage'', v) out =
     bind_err (string_value ''Output.systemMessage'' v (SystemMessage out))
            (\<lambda>s. Inr (out\<lparr>SystemMessage := s\<rparr>))"
  by (simp_all add: Output_member_def fold_eq_def fold_keys)

lemma members_append:
  "members f (xs @ ys) s = bind_err (members f xs s) (members f ys)"
  by (induction xs arbitrary: s) (auto simp: bind_err_def split: sum.splits)

lemma bind_err_Inr [simp]: "bind_err (Inr v) f = f v"
  by (simp add: bind_err_def)

lemma bind_err_Inl [simp]: "bind_err (Inl e) f = Inl e"
  by (simp add: bind_err_def)

text \<open>The members that \<^verbatim>\<open>json.Marshal\<close> writes for a \<^verbatim>\<open>HookSpecificOutput\<close> whose raw message is
  well formed.\<close>

lemma marshal_HookSpecificOutput_well_formed:
  assumes "well_formed (UpdatedInput h)"
  shows "marshal_HookSpecificOutput h =
     Inr (JObject
       (omit_string ''hookEventName'' (HookSpecificOutput.HookEventName h) @
        omit_string ''permissionDecision'' (PermissionDecision h) @
        omit_string ''permissionDecisionReason'' (PermissionDecisionReason h) @
        (case UpdatedInput h of Text j \<Rightarrow> [(''updatedInput'', j)] | _ \<Rightarrow> []) @
        omit_string ''additionalContext'' (AdditionalContext h)))"
  using assms
  by (cases "UpdatedInput h") (simp_all add: marshal_HookSpecificOutput_def omit_RawMessage_def)

lemma members_hso_fields:
  "members hso_member
     (omit_string ''hookEventName'' ev @
      omit_string ''permissionDecision'' pd @
      omit_string ''permissionDecisionReason'' pdr @
      (case upd of Text j \<Rightarrow> [(''updatedInput'', j)] | _ \<Rightarrow> []) @
      omit_string ''additionalContext'' ac) zero_HookSpecificOutput =
   Inr \<lparr>HookSpecificOutput.HookEventName = ev, PermissionDecision = pd,
        PermissionDecisionReason = pdr,
        UpdatedInput = (case upd of Text j \<Rightarrow> Text j | _ \<Rightarrow> Empty),
        AdditionalContext = ac\<rparr>"
  by (cases upd)
    (simp_all add: members_append omit_string_def hso_member_keys zero_HookSpecificOutput_def)

lemma members_Output_fields:
  "members Output_member
     (omit_bool_ptr ''continue'' c @ omit_bool_ptr ''suppressOutput'' so @
      omit_string ''systemMessage'' sm)
     \<lparr>HookSpecificOutput = h, Continue = None, SuppressOutput = None, SystemMessage = ''''\<rparr> =
   Inr \<lparr>HookSpecificOutput = h, Continue = c, SuppressOutput = so, SystemMessage = sm\<rparr>"
  by (cases c; cases so)
    (simp_all add: members_append omit_string_def omit_bool_ptr_def Output_member_keys)

lemma unmarshal_marshal_Output:
  assumes "well_formed (UpdatedInput (HookSpecificOutput out))"
  shows "\<exists>data. marshal_Output out = Inr data \<and> unmarshal_Output data = Inr out"
proof -
  obtain h c so sm where out:
    "out = \<lparr>HookSpecificOutput = h, Continue = c, SuppressOutput = so, SystemMessage = sm\<rparr>"
    by (cases out)
  obtain ev pd pdr upd ac where h:
    "h = \<lparr>HookSpecificOutput.HookEventName = ev, PermissionDecision = pd,
          PermissionDecisionReason = pdr, UpdatedInput = upd, AdditionalContext = ac\<rparr>"
    by (cases h)
  have wf: "well_formed upd"
    using assms by (simp add: out h)
  then have upd: "(case upd of Text j \<Rightarrow> Text j | _ \<Rightarrow> Empty) = upd"
    by (cases upd) simp_all
  have m: "marshal_HookSpecificOutput h =
     Inr (JObject
       (omit_string ''hookEventName'' ev @ omit_string ''permissionDecision'' pd @
        omit_string ''permissionDecisionReason'' pdr @
        (case upd of Text j \<Rightarrow> [(''updatedInput'', j)] | _ \<Rightarrow> []) @
        omit_string ''additionalContext'' ac))"
    using marshal_HookSpecificOutput_well_formed [of h] wf by (simp add: h)
  show ?thesis
    by (simp add: out marshal_Output_def m Output_member_keys zero_Output_def
        members_hso_fields members_Output_fields upd h [symmetric])
qed

subsection \<open>Decision results\<close>

lemma marshal_decision_Output:
  "marshal_Output (decision_Output ev d reason) = Inr (decision_body ev d reason)"
  by (simp add: marshal_Output_def marshal_HookSpecificOutput_well_formed decision_Output_def
      decision_body_def omit_string_def omit_bool_ptr_def)

lemma unmarshal_decision_body:
  "unmarshal_Output (decision_body ev d reason) = Inr (decision_Output ev d reason)"
  using unmarshal_marshal_Output [of "decision_Output ev d reason"]
  by (simp add: marshal_decision_Output) (simp add: decision_Output_def)

lemma denyResult_body:
  "denyResult ev reason = \<lparr>Result.ExitCode = 2, Output = decision_body ev ''deny'' reason\<rparr>"
  using marshal_decision_Output [of ev "''deny''" reason]
  by (simp add: denyResult_def decision_Output_def)

lemma buildDecisionResult_body:
  "buildDecisionResult ev d reason =
   \<lparr>Result.ExitCode = (if d = ''deny'' then 2 else 0), Output = decision_body ev d reason\<rparr>"
  using marshal_decision_Output [of ev d reason]
  by (simp add: buildDecisionResult_def decision_Output_def)

lemma TrimSpace_TrimSpace [simp]: "TrimSpace (TrimSpace b) = TrimSpace b"
  by (induction b) simp_all

lemma unmarshal_Output_TrimSpace:
  "unmarshal_Output b = Inr out \<Longrightarrow> unmarshal_Output (TrimSpace b) = Inr out"
  by (cases b) simp_all

lemma TrimSpace_json_output [simp]: "TrimSpace (json_output kvs) = json_output kvs"
  by (simp add: json_output_def)

lemma TrimSpace_outputs [simp]:
  "TrimSpace deny_output = deny_output"
  "TrimSpace number_output = number_output"
  "TrimSpace rewrite_output = rewrite_output"
  by (simp_all add: deny_output_def number_output_def rewrite_output_def)

lemma unmarshal_Output_Inr_TrimSpace:
  "unmarshal_Output (TrimSpace b) = Inr out \<Longrightarrow> TrimSpace b \<noteq> Empty"
  by (cases "TrimSpace b") simp_all

subsection \<open>The branches of the loop body\<close>

lemma hook_step_launch_error:
  assumes "Encode (WithToolInput input acc) = Inr stdin"
    and "r w h stdin = (Inl err, w')"
  shows "hook_step p r auditor input n i h acc ctx res w a =
     (if EffectiveOnError h = ''skip'' then
        Continue acc ctx
          (res @ [\<lparr>HookIndex = i, HookName = Name h, HookResult.ExitCode = - 1,
                   HookResult.Outcome = ''skip'',
                   HookResult.Stderr = TruncateStderr err 512\<rparr>]) w'
      else
        Return
          (denyResult (Input.HookEventName input)
             (''hook-chain: hook '' @ quote p (Name h) @ '' failed: '' @ err))
          w'
          (recordAudit auditor input n ''error''
             (''hook '' @ quote p (Name h) @ '' runner error: '' @ err)
             (res @ [\<lparr>HookIndex = i, HookName = Name h, HookResult.ExitCode = - 1,
                      HookResult.Outcome = ''error'',
                      HookResult.Stderr = TruncateStderr err 512\<rparr>]) a))"
  using assms by (simp add: hook_step_def)

lemma hook_step_exit_2:
  assumes "Encode (WithToolInput input acc) = Inr stdin"
    and "r w h stdin = (Inr runRes, w')"
    and "runner_Result.ExitCode runRes = 2"
  shows "hook_step p r auditor input n i h acc ctx res w a =
     (let reason =
            (if runner_Result.Stderr runRes \<noteq> '''' then runner_Result.Stderr runRes
             else ''hook '' @ quote p (Name h) @ '' denied (exit 2)'')
      in Return (denyResult (Input.HookEventName input) reason) w'
           (recordAudit auditor input n ''deny'' reason
              (res @ [\<lparr>HookIndex = i, HookName = Name h, HookResult.ExitCode = 2,
                       HookResult.Outcome = ''deny'',
                       HookResult.Stderr =
                         TruncateStderr (runner_Result.Stderr runRes) 512\<rparr>]) a))"
  using assms by (simp add: hook_step_def)

lemma hook_step_exit_other:
  assumes "Encode (WithToolInput input acc) = Inr stdin"
    and "r w h stdin = (Inr runRes, w')"
    and "runner_Result.ExitCode runRes \<noteq> 2"
    and "runner_Result.ExitCode runRes \<noteq> 0"
  shows "hook_step p r auditor input n i h acc ctx res w a =
     (if EffectiveOnError h = ''skip'' then
        Continue acc ctx
          (res @ [\<lparr>HookIndex = i, HookName = Name h,
                   HookResult.ExitCode = runner_Result.ExitCode runRes,
                   HookResult.Outcome = ''skip'',
                   HookResult.Stderr = TruncateStderr (runner_Result.Stderr runRes) 512\<rparr>]) w'
      else
        (let reason =
               (if runner_Result.Stderr runRes \<noteq> '''' then runner_Result.Stderr runRes
                else ''hook '' @ quote p (Name h) @ '' failed (exit '' @
                     show_int (runner_Result.ExitCode runRes) @ '')'')
         in Return (denyResult (Input.HookEventName input) reason) w'
              (recordAudit auditor input n ''deny'' reason
                 (res @ [\<lparr>HookIndex = i, HookName = Name h,
                          HookResult.ExitCode = runner_Result.ExitCode runRes,
                          HookResult.Outcome = ''deny'',
                          HookResult.Stderr =
                            TruncateStderr (runner_Result.Stderr runRes) 512\<rparr>]) a)))"
  using assms by (simp add: hook_step_def)

lemma hook_step_invalid_stdout:
  assumes "Encode (WithToolInput input acc) = Inr stdin"
    and "r w h stdin = (Inr runRes, w')"
    and "runner_Result.ExitCode runRes = 0"
    and "TrimSpace (Stdout runRes) \<noteq> Empty"
    and "unmarshal_Output (TrimSpace (Stdout runRes)) = Inl err"
  shows "hook_step p r auditor input n i h acc ctx res w a =
     (if EffectiveOnError h = ''skip'' then
        Continue acc ctx
          (res @ [\<lparr>HookIndex = i, HookName = Name h, HookResult.ExitCode = 0,
                   HookResult.Outcome = ''skip'',
                   HookResult.Stderr = TruncateStderr err 512\<rparr>]) w'
      else
        Return
          (denyResult (Input.HookEventName input)
             (''hook-chain: hook '' @ quote p (Name h) @ '' returned invalid JSON: '' @ err))
          w'
          (recordAudit auditor input n ''error''
             (''hook '' @ quote p (Name h) @ '' invalid JSON: '' @ err)
             (res @ [\<lparr>HookIndex = i, HookName = Name h, HookResult.ExitCode = 0,
                      HookResult.Outcome = ''error'',
                      HookResult.Stderr = TruncateStderr err 512\<rparr>]) a))"
  using assms by (simp add: hook_step_def)

lemma hook_step_decision:
  assumes "Encode (WithToolInput input acc) = Inr stdin"
    and "r w h stdin = (Inr runRes, w')"
    and "runner_Result.ExitCode runRes = 0"
    and "unmarshal_Output (TrimSpace (Stdout runRes)) = Inr output"
    and "PermissionDecision (HookSpecificOutput output) = d"
    and "d = ''deny'' \<or> d = ''ask''"
  shows "hook_step p r auditor input n i h acc ctx res w a =
     Return
       (buildDecisionResult (Input.HookEventName input) d
          (PermissionDecisionReason (HookSpecificOutput output)))
       w'
       (recordAudit auditor input n d (PermissionDecisionReason (HookSpecificOutput output))
          (res @ [\<lparr>HookIndex = i, HookName = Name h, HookResult.ExitCode = 0,
                   HookResult.Outcome = d, HookResult.Stderr = ''''\<rparr>]) a)"
proof -
  have "TrimSpace (Stdout runRes) \<noteq> Empty"
    using assms(4) by (rule unmarshal_Output_Inr_TrimSpace)
  moreover have "unmarshal_Output (TrimSpace (Stdout runRes)) = Inr output"
    using assms(4) by (simp add: unmarshal_Output_TrimSpace)
  ultimately show ?thesis
    using assms(1,2,3,5,6) by (auto simp: hook_step_def Let_def)
qed

lemma hook_step_merge:
  assumes "Encode (WithToolInput input acc) = Inr stdin"
    and "r w h stdin = (Inr runRes, w')"
    and "runner_Result.ExitCode runRes = 0"
    and "unmarshal_Output (TrimSpace (Stdout runRes)) = Inr output"
    and "PermissionDecision (HookSpecificOutput output) \<noteq> ''deny''"
    and "PermissionDecision (HookSpecificOutput output) \<noteq> ''ask''"
    and "UpdatedInput (HookSpecificOutput output) \<noteq> Empty"
  shows "hook_step p r auditor input n i h acc ctx res w a =
     (case shallowMergeJSON acc (UpdatedInput (HookSpecificOutput output)) of
        NilMapPanic \<Rightarrow> Panic w'
      | MergeError err \<Rightarrow>
          Return
            (denyResult (Input.HookEventName input)
               (''hook-chain: failed to merge updatedInput from hook '' @ quote p (Name h) @
                '': '' @ err))
            w'
            (recordAudit auditor input n ''error''
               (''merge updatedInput from hook '' @ quote p (Name h) @ '': '' @ err)
               (res @ [\<lparr>HookIndex = i, HookName = Name h, HookResult.ExitCode = 0,
                        HookResult.Outcome = ''error'',
                        HookResult.Stderr = TruncateStderr err 512\<rparr>]) a)
      | Merged merged \<Rightarrow>
          collect i h (HookSpecificOutput output) ''merge'' merged ctx res w')"
proof -
  have "TrimSpace (Stdout runRes) \<noteq> Empty"
    using assms(4) by (rule unmarshal_Output_Inr_TrimSpace)
  moreover have "unmarshal_Output (TrimSpace (Stdout runRes)) = Inr output"
    using assms(4) by (simp add: unmarshal_Output_TrimSpace)
  ultimately show ?thesis
    using assms(1,2,3,5,6,7) by (simp add: hook_step_def Let_def)
qed

lemma makeInput_ls: "makeInput (JObject [(''command'', JString ''ls'')]) = Inr ls_input"
  by (simp add: makeInput_def Decode_def UnmarshalJSON_def string_field_def lookup_def
      zero_Input_def ls_input_def)

lemma Encode_ls: "Encode (WithToolInput ls_input (ToolInput ls_input)) = Inr ls_stdin"
  by (simp add: Encode_def MarshalJSON_def WithToolInput_def ls_input_def put_string_def
      ls_stdin_def)





lemma advance_append:
  "advance p r input i (xs @ ys) acc ctx res w =
   (case advance p r input i xs acc ctx res w of
      None \<Rightarrow> None
    | Some (acc', ctx', res', w') \<Rightarrow> advance p r input (i + int (length xs)) ys acc' ctx' res' w')"
proof (induction xs arbitrary: i acc ctx res w)
  case Nil
  then show ?case by simp
next
  case (Cons x xs)
  show ?case
    by (cases "hook_step p r None input 0 i x acc ctx res w ()")
      (simp_all add: Cons.IH ac_simps split: option.splits)
qed

lemma running_Suc:
  assumes "k < length hooks"
    and "running p r input hooks k w = Some (acc, ctx, res, w1)"
  shows "running p r input hooks (Suc k) w =
     (case hook_step p r None input 0 (int k) (hooks ! k) acc ctx res w1 () of
        Continue acc' ctx' res' w' \<Rightarrow> Some (acc', ctx', res', w')
      | Return result w' a' \<Rightarrow> None
      | Panic w' \<Rightarrow> None)"
proof -
  have "take (Suc k) hooks = take k hooks @ [hooks ! k]"
    using assms(1) by (simp add: take_Suc_conv_app_nth)
  then show ?thesis
    using assms by (simp add: running_def advance_append split: step.splits)
qed

text \<open>C2: a hook that exits with 0 and whose stdout, with the white space at its ends taken
  off, decodes to an \<^verbatim>\<open>Output\<close> with the decision "deny" or "ask" ends the run at once, with exit code 2 for "deny" and 0 for "ask",
  and with a body that decodes to the decision and the hook's decision reason; the runner is
  left as that hook's invocation left it; nothing is assumed about the hook's \<^verbatim>\<open>on_error\<close>.\<close>

theorem explicit_decision_short_circuits:
  assumes "k < length hooks"
    and "running p r input hooks k w = Some (acc, ctx, res, w1)"
    and "Encode (WithToolInput input acc) = Inr stdin"
    and "r w1 (hooks ! k) stdin = (Inr runRes, w2)"
    and "runner_Result.ExitCode runRes = 0"
    and "unmarshal_Output (TrimSpace (Stdout runRes)) = Inr output"
    and "PermissionDecision (HookSpecificOutput output) = d"
    and "d = ''deny'' \<or> d = ''ask''"
  shows "\<exists>body a'.
     Run f p input hooks r auditor w a =
       (Returned \<lparr>Result.ExitCode = (if d = ''deny'' then 2 else 0), Output = body\<rparr>, w2, a') \<and>
     body \<noteq> Empty \<and>
     unmarshal_Output body =
       Inr (decision_Output (Input.HookEventName input) d
              (PermissionDecisionReason (HookSpecificOutput output)))"
proof -
  have "hook_step p r auditor input (int (length hooks)) (int k) (hooks ! k) acc ctx res w1 a =
     Return
       (buildDecisionResult (Input.HookEventName input) d
          (PermissionDecisionReason (HookSpecificOutput output)))
       w2
       (recordAudit auditor input (int (length hooks)) d
          (PermissionDecisionReason (HookSpecificOutput output))
          (res @ [\<lparr>HookIndex = int k, HookName = Name (hooks ! k), HookResult.ExitCode = 0,
                   HookResult.Outcome = d, HookResult.Stderr = ''''\<rparr>]) a)"
    using assms(3-8) by (rule hook_step_decision)
  then show ?thesis
    by (simp add: Run_running [OF assms(1,2)] buildDecisionResult_body unmarshal_decision_body)
      (simp add: decision_body_def)
qed

text \<open>C10: when a hook ends the run with an explicit deny or ask decision, the body that
  \<^verbatim>\<open>Run\<close> returns holds the event name, the decision and the decision reason and nothing
  else, whatever tool input earlier hooks have merged and whatever context they have
  added.\<close>

theorem decision_body_omits_merged_state:
  assumes "k < length hooks"
    and "running p r input hooks k w = Some (acc, ctx, res, w1)"
    and "Encode (WithToolInput input acc) = Inr stdin"
    and "r w1 (hooks ! k) stdin = (Inr runRes, w2)"
    and "runner_Result.ExitCode runRes = 0"
    and "unmarshal_Output (TrimSpace (Stdout runRes)) = Inr output"
    and "PermissionDecision (HookSpecificOutput output) = d"
    and "d = ''deny'' \<or> d = ''ask''"
  shows "\<exists>result members.
     fst (Run f p input hooks r auditor w a) = Returned result \<and>
     Result.Output result = Text (JObject [(''hookSpecificOutput'', JObject members)]) \<and>
     members =
       omit_string ''hookEventName'' (Input.HookEventName input) @
       [(''permissionDecision'', JString d)] @
       omit_string ''permissionDecisionReason''
         (PermissionDecisionReason (HookSpecificOutput output)) \<and>
     ''updatedInput'' \<notin> fst ` set members \<and>
     ''additionalContext'' \<notin> fst ` set members"
proof -
  have "hook_step p r auditor input (int (length hooks)) (int k) (hooks ! k) acc ctx res w1 a =
     Return
       (buildDecisionResult (Input.HookEventName input) d
          (PermissionDecisionReason (HookSpecificOutput output)))
       w2
       (recordAudit auditor input (int (length hooks)) d
          (PermissionDecisionReason (HookSpecificOutput output))
          (res @ [\<lparr>HookIndex = int k, HookName = Name (hooks ! k), HookResult.ExitCode = 0,
                   HookResult.Outcome = d, HookResult.Stderr = ''''\<rparr>]) a)"
    using assms(3-8) by (rule hook_step_decision)
  moreover have "d \<noteq> ''''"
    using assms(8) by auto
  ultimately show ?thesis
    by (simp add: Run_running [OF assms(1,2)] buildDecisionResult_body decision_body_def)
      (simp add: omit_string_def)
qed

lemma running_0: "running p r input hooks 0 w = Some (ToolInput input, [], [], w)"
  by (simp add: running_def)

lemma mockRunner_Run_first:
  "mockRunner_Run (mock (x # xs)) (hook name onError) stdin = (x, called (x # xs) [(name, stdin)])"
  by (simp add: mockRunner_Run_def mock_def called_def hook_def)

theorem explicit_decision_short_circuits_witness:
  "(0::nat) < length [hook ''asker'' ''skip'', hook ''never'' ''''] \<and>
   running no_isPrint mockRunner_Run ls_input [hook ''asker'' ''skip'', hook ''never'' ''''] 0
     (mock [exited 0 (json_output [(''permissionDecision'', JString ''ask''),
                                   (''permissionDecisionReason'', JString ''needs approval'')]) '''']) =
     Some (ToolInput ls_input, [], [],
       mock [exited 0 (json_output [(''permissionDecision'', JString ''ask''),
                                    (''permissionDecisionReason'', JString ''needs approval'')]) '''']) \<and>
   Encode (WithToolInput ls_input (ToolInput ls_input)) = Inr ls_stdin \<and>
   unmarshal_Output
     (TrimSpace (json_output [(''permissionDecision'', JString ''ask''),
                              (''permissionDecisionReason'', JString ''needs approval'')])) =
     Inr (decision_Output '''' ''ask'' ''needs approval'') \<and>
   (\<exists>body a'.
      Run no_f64 no_isPrint ls_input [hook ''asker'' ''skip'', hook ''never'' ''''] mockRunner_Run
        (Some (mockAuditor None))
        (mock [exited 0 (json_output [(''permissionDecision'', JString ''ask''),
                                      (''permissionDecisionReason'', JString ''needs approval'')]) ''''])
        [] =
        (Returned \<lparr>Result.ExitCode = 0, Output = body\<rparr>,
         called [exited 0 (json_output [(''permissionDecision'', JString ''ask''),
                                        (''permissionDecisionReason'', JString ''needs approval'')]) '''']
           [(''asker'', ls_stdin)], a') \<and>
      body \<noteq> Empty \<and>
      unmarshal_Output body = Inr (decision_Output ''PreToolUse'' ''ask'' ''needs approval''))"
proof -
  let ?out = "json_output [(''permissionDecision'', JString ''ask''),
                           (''permissionDecisionReason'', JString ''needs approval'')]"
  let ?hooks = "[hook ''asker'' ''skip'', hook ''never'' '''']"
  let ?rr = "\<lparr>runner_Result.ExitCode = 0, Stdout = ?out, runner_Result.Stderr = ''''\<rparr>"
  have k: "(0::nat) < length ?hooks" by simp
  have run: "running no_isPrint mockRunner_Run ls_input ?hooks 0 (mock [exited 0 ?out '''']) =
      Some (ToolInput ls_input, [], [], mock [exited 0 ?out ''''])"
    by (rule running_0)
  have call: "mockRunner_Run (mock [exited 0 ?out '''']) (?hooks ! 0) ls_stdin =
      (Inr ?rr, called [exited 0 ?out ''''] [(''asker'', ls_stdin)])"
    by (simp add: mockRunner_Run_first) (simp add: exited_def)
  have code: "runner_Result.ExitCode ?rr = 0" by simp
  have dec: "unmarshal_Output ?out = Inr (decision_Output '''' ''ask'' ''needs approval'')"
    by (simp add: json_output_def Output_member_keys hso_member_keys zero_Output_def
        zero_HookSpecificOutput_def decision_Output_def)
  have dec': "unmarshal_Output (TrimSpace (Stdout ?rr)) = Inr (decision_Output '''' ''ask'' ''needs approval'')"
    using dec by simp
  have d: "PermissionDecision (HookSpecificOutput (decision_Output '''' ''ask'' ''needs approval'')) = ''ask''"
    by (simp add: decision_Output_def)
  have "\<exists>body a'.
      Run no_f64 no_isPrint ls_input ?hooks mockRunner_Run (Some (mockAuditor None))
        (mock [exited 0 ?out '''']) [] =
        (Returned \<lparr>Result.ExitCode = (if ''ask'' = ''deny'' then 2 else 0), Output = body\<rparr>,
         called [exited 0 ?out ''''] [(''asker'', ls_stdin)], a') \<and>
      body \<noteq> Empty \<and>
      unmarshal_Output body =
        Inr (decision_Output (Input.HookEventName ls_input) ''ask''
               (PermissionDecisionReason
                  (HookSpecificOutput (decision_Output '''' ''ask'' ''needs approval''))))"
    by (rule explicit_decision_short_circuits [OF k run Encode_ls call code dec' d]) simp
  then show ?thesis
    using run Encode_ls dec by (simp add: ls_input_def decision_Output_def)
qed

lemma mockRunner_Run_next:
  "length cs < length rs \<Longrightarrow>
   mockRunner_Run (called rs cs) (hook name onError) stdin =
   (rs ! length cs, called rs (cs @ [(name, stdin)]))"
  by (simp add: mockRunner_Run_def called_def hook_def)

lemma Encode_la:
  "Encode (WithToolInput ls_input (Text (JObject [(''command'', JString ''ls -la'')]))) =
   Inr la_stdin"
  by (simp add: Encode_def MarshalJSON_def WithToolInput_def ls_input_def put_string_def
      la_stdin_def)

lemma unmarshal_rewrite_output:
  "unmarshal_Output rewrite_output =
   Inr \<lparr>HookSpecificOutput =
          \<lparr>HookSpecificOutput.HookEventName = '''', PermissionDecision = '''',
           PermissionDecisionReason = '''',
           UpdatedInput = Text (JObject [(''command'', JString ''ls -la'')]),
           AdditionalContext = ''rewritten''\<rparr>,
        Continue = None, SuppressOutput = None, SystemMessage = ''''\<rparr>"
  by (simp add: rewrite_output_def json_output_def Output_member_keys hso_member_keys
      zero_Output_def zero_HookSpecificOutput_def)

lemma unmarshal_deny_output:
  "unmarshal_Output deny_output = Inr (decision_Output '''' ''deny'' ''blocked'')"
  by (simp add: deny_output_def json_output_def Output_member_keys hso_member_keys
      zero_Output_def zero_HookSpecificOutput_def decision_Output_def)

lemma running_1_rewrite:
  "running no_isPrint mockRunner_Run ls_input (hook ''rewrite'' onError # hooks) 1
     (mock (exited 0 rewrite_output '''' # rs)) =
   Some (Text (JObject [(''command'', JString ''ls -la'')]), [''rewritten''],
         [\<lparr>HookIndex = 0, HookName = ''rewrite'', HookResult.ExitCode = 0,
           HookResult.Outcome = ''merge'', HookResult.Stderr = ''''\<rparr>],
         called (exited 0 rewrite_output '''' # rs) [(''rewrite'', ls_stdin)])"
proof -
  let ?h = "hook ''rewrite'' onError"
  let ?m = "mock (exited 0 rewrite_output '''' # rs)"
  have call: "mockRunner_Run ?m ?h ls_stdin =
      (Inr \<lparr>runner_Result.ExitCode = 0, Stdout = rewrite_output, runner_Result.Stderr = ''''\<rparr>,
       called (exited 0 rewrite_output '''' # rs) [(''rewrite'', ls_stdin)])"
    by (simp add: mockRunner_Run_first) (simp add: exited_def)
  have trim: "TrimSpace rewrite_output = rewrite_output"
    by (simp add: rewrite_output_def json_output_def)
  have ne: "rewrite_output \<noteq> Empty"
    by (simp add: rewrite_output_def json_output_def)
  have merge: "shallowMergeJSON (ToolInput ls_input) (Text (JObject [(''command'', JString ''ls -la'')])) =
      Merged (Text (JObject [(''command'', JString ''ls -la'')]))"
    by (simp add: ls_input_def shallowMergeJSON_def)
  have "hook_step no_isPrint mockRunner_Run None ls_input 0 0 ?h (ToolInput ls_input) [] [] ?m () =
      Continue (Text (JObject [(''command'', JString ''ls -la'')])) [''rewritten'']
         [\<lparr>HookIndex = 0, HookName = ''rewrite'', HookResult.ExitCode = 0,
           HookResult.Outcome = ''merge'', HookResult.Stderr = ''''\<rparr>]
         (called (exited 0 rewrite_output '''' # rs) [(''rewrite'', ls_stdin)])"
    by (simp add: hook_step_def Encode_ls call trim ne unmarshal_rewrite_output merge
        collect_def) (simp add: hook_def)
  then show ?thesis
    using running_Suc [of 0 "?h # hooks" no_isPrint mockRunner_Run ls_input ?m "ToolInput ls_input" "[]" "[]" ?m]
    by (simp add: running_0)
qed

theorem decision_body_omits_merged_state_witness:
  "(1::nat) < length [hook ''rewrite'' '''', hook ''guard'' '''', hook ''never'' ''''] \<and>
   running no_isPrint mockRunner_Run ls_input [hook ''rewrite'' '''', hook ''guard'' '''', hook ''never'' ''''] 1
     (mock [exited 0 rewrite_output '''', exited 0 deny_output '''']) =
   Some (Text (JObject [(''command'', JString ''ls -la'')]), [''rewritten''],
         [\<lparr>HookIndex = 0, HookName = ''rewrite'', HookResult.ExitCode = 0,
           HookResult.Outcome = ''merge'', HookResult.Stderr = ''''\<rparr>],
         called [exited 0 rewrite_output '''', exited 0 deny_output ''''] [(''rewrite'', ls_stdin)]) \<and>
   unmarshal_Output (TrimSpace deny_output) = Inr (decision_Output '''' ''deny'' ''blocked'') \<and>
   (\<exists>result members.
      fst (Run no_f64 no_isPrint ls_input [hook ''rewrite'' '''', hook ''guard'' '''', hook ''never'' '''']
             mockRunner_Run (Some (mockAuditor None))
             (mock [exited 0 rewrite_output '''', exited 0 deny_output '''']) []) =
        Returned result \<and>
      Result.Output result = Text (JObject [(''hookSpecificOutput'', JObject members)]) \<and>
      members = [(''hookEventName'', JString ''PreToolUse''),
                 (''permissionDecision'', JString ''deny''),
                 (''permissionDecisionReason'', JString ''blocked'')] \<and>
      ''updatedInput'' \<notin> fst ` set members \<and>
      ''additionalContext'' \<notin> fst ` set members)"
proof -
  let ?hooks = "[hook ''rewrite'' '''', hook ''guard'' '''', hook ''never'' '''']"
  let ?rs = "[exited 0 rewrite_output '''', exited 0 deny_output '''']"
  let ?rr = "\<lparr>runner_Result.ExitCode = 0, Stdout = deny_output, runner_Result.Stderr = ''''\<rparr>"
  have k: "(1::nat) < length ?hooks" by simp
  note run = running_1_rewrite [of "''''" "[hook ''guard'' '''', hook ''never'' '''']" "[exited 0 deny_output '''']"]
  have call: "mockRunner_Run (called ?rs [(''rewrite'', ls_stdin)]) (?hooks ! 1) la_stdin =
      (Inr ?rr, called ?rs ([(''rewrite'', ls_stdin)] @ [(''guard'', la_stdin)]))"
    by (simp add: mockRunner_Run_next) (simp add: exited_def)
  have code: "runner_Result.ExitCode ?rr = 0" by simp
  have dec: "unmarshal_Output (TrimSpace (Stdout ?rr)) = Inr (decision_Output '''' ''deny'' ''blocked'')"
    by (simp add: unmarshal_deny_output)
  have d: "PermissionDecision (HookSpecificOutput (decision_Output '''' ''deny'' ''blocked'')) = ''deny''"
    by (simp add: decision_Output_def)
  have "\<exists>result members.
     fst (Run no_f64 no_isPrint ls_input ?hooks mockRunner_Run (Some (mockAuditor None)) (mock ?rs) []) =
       Returned result \<and>
     Result.Output result = Text (JObject [(''hookSpecificOutput'', JObject members)]) \<and>
     members =
       omit_string ''hookEventName'' (Input.HookEventName ls_input) @
       [(''permissionDecision'', JString ''deny'')] @
       omit_string ''permissionDecisionReason''
         (PermissionDecisionReason (HookSpecificOutput (decision_Output '''' ''deny'' ''blocked''))) \<and>
     ''updatedInput'' \<notin> fst ` set members \<and>
     ''additionalContext'' \<notin> fst ` set members"
    by (rule decision_body_omits_merged_state [OF k run Encode_la call code dec d]) simp
  then show ?thesis
    using run unmarshal_deny_output
    by (simp add: ls_input_def decision_Output_def omit_string_def)
qed

lemma unmarshal_map_object_or_null:
  "object_or_null b \<Longrightarrow> \<exists>m. unmarshal_map b = Inr m"
  by (cases b rule: object_or_null.cases) simp_all

lemma unmarshal_map_other:
  "\<not> object_or_null b \<Longrightarrow> \<exists>err. unmarshal_map b = Inl err"
  by (cases b rule: unmarshal_map.cases) simp_all

lemma shallowMergeJSON_MergeError:
  assumes "base \<noteq> Empty" and "patch \<noteq> Empty"
    and "\<not> object_or_null base \<or> \<not> object_or_null patch"
  shows "\<exists>err. shallowMergeJSON base patch = MergeError err"
proof (cases "object_or_null base")
  case False
  then obtain err where "unmarshal_map base = Inl err"
    using unmarshal_map_other by blast
  then show ?thesis
    using assms(1,2) by (simp add: shallowMergeJSON_def)
next
  case True
  then obtain m where m: "unmarshal_map base = Inr m"
    using unmarshal_map_object_or_null by blast
  from True assms(3) obtain err where "unmarshal_map patch = Inl err"
    using unmarshal_map_other by blast
  then show ?thesis
    using assms(1,2) m by (simp add: shallowMergeJSON_def)
qed

text \<open>C3, as amended: when both operands are present, the merge fails with a \<^verbatim>\<open>MergeError\<close>
  whenever one of them is not valid JSON or is a JSON value other than an object or
  \<^verbatim>\<open>null\<close>; and when the merge of a hook's \<^verbatim>\<open>updatedInput\<close> fails, \<^verbatim>\<open>Run\<close> returns at once with a
  deny result of exit code 2 that names the hook and carries the error, whatever the hook's
  \<^verbatim>\<open>on_error\<close> policy.\<close>

theorem merge_error_fails_closed:
  "(base \<noteq> Empty \<and> patch \<noteq> Empty \<and> (\<not> object_or_null base \<or> \<not> object_or_null patch) \<longrightarrow>
      (\<exists>err. shallowMergeJSON base patch = MergeError err)) \<and>
   (k < length hooks \<and>
    running p r input hooks k w = Some (acc, ctx, res, w1) \<and>
    Encode (WithToolInput input acc) = Inr stdin \<and>
    r w1 (hooks ! k) stdin = (Inr runRes, w2) \<and>
    runner_Result.ExitCode runRes = 0 \<and>
    unmarshal_Output (TrimSpace (Stdout runRes)) = Inr out \<and>
    PermissionDecision (HookSpecificOutput out) \<noteq> ''deny'' \<and>
    PermissionDecision (HookSpecificOutput out) \<noteq> ''ask'' \<and>
    UpdatedInput (HookSpecificOutput out) \<noteq> Empty \<and>
    shallowMergeJSON acc (UpdatedInput (HookSpecificOutput out)) = MergeError err \<longrightarrow>
      (\<exists>a'. Run f p input hooks r auditor w a =
         (Returned
            \<lparr>Result.ExitCode = 2,
             Output = decision_body (Input.HookEventName input) ''deny''
                        (''hook-chain: failed to merge updatedInput from hook '' @
                         quote p (Name (hooks ! k)) @ '': '' @ err)\<rparr>,
          w2, a')))"
proof (intro conjI impI)
  assume "base \<noteq> Empty \<and> patch \<noteq> Empty \<and> (\<not> object_or_null base \<or> \<not> object_or_null patch)"
  then show "\<exists>err. shallowMergeJSON base patch = MergeError err"
    using shallowMergeJSON_MergeError by blast
next
  assume h: "k < length hooks \<and>
    running p r input hooks k w = Some (acc, ctx, res, w1) \<and>
    Encode (WithToolInput input acc) = Inr stdin \<and>
    r w1 (hooks ! k) stdin = (Inr runRes, w2) \<and>
    runner_Result.ExitCode runRes = 0 \<and>
    unmarshal_Output (TrimSpace (Stdout runRes)) = Inr out \<and>
    PermissionDecision (HookSpecificOutput out) \<noteq> ''deny'' \<and>
    PermissionDecision (HookSpecificOutput out) \<noteq> ''ask'' \<and>
    UpdatedInput (HookSpecificOutput out) \<noteq> Empty \<and>
    shallowMergeJSON acc (UpdatedInput (HookSpecificOutput out)) = MergeError err"
  then have k: "k < length hooks"
    and run: "running p r input hooks k w = Some (acc, ctx, res, w1)"
    and enc: "Encode (WithToolInput input acc) = Inr stdin"
    and call: "r w1 (hooks ! k) stdin = (Inr runRes, w2)"
    and code: "runner_Result.ExitCode runRes = 0"
    and dec: "unmarshal_Output (TrimSpace (Stdout runRes)) = Inr out"
    and nd: "PermissionDecision (HookSpecificOutput out) \<noteq> ''deny''"
    and na: "PermissionDecision (HookSpecificOutput out) \<noteq> ''ask''"
    and upd: "UpdatedInput (HookSpecificOutput out) \<noteq> Empty"
    and err: "shallowMergeJSON acc (UpdatedInput (HookSpecificOutput out)) = MergeError err"
    by simp_all
  show "\<exists>a'. Run f p input hooks r auditor w a =
         (Returned
            \<lparr>Result.ExitCode = 2,
             Output = decision_body (Input.HookEventName input) ''deny''
                        (''hook-chain: failed to merge updatedInput from hook '' @
                         quote p (Name (hooks ! k)) @ '': '' @ err)\<rparr>,
          w2, a')"
    by (simp add: Run_running [OF k run]
        hook_step_merge [where r = r and w = w1, OF enc call code dec nd na upd] err
        denyResult_body)
qed

text \<open>C3 as it is stated fails: a single present operand that is a number is returned as
  it is, and a patch that is \<^verbatim>\<open>null\<close> leaves an object base in place; neither is an error.\<close>

theorem merge_non_object_counterexample:
  "Text (JNumber ''42'') \<noteq> Empty \<and> \<not> is_object (Text (JNumber ''42'')) \<and>
   shallowMergeJSON Empty (Text (JNumber ''42'')) = Merged (Text (JNumber ''42'')) \<and>
   Text JNull \<noteq> Empty \<and> \<not> is_object (Text JNull) \<and>
   shallowMergeJSON (Text (JObject [(''a'', JNumber ''1'')])) (Text JNull) =
     Merged (Text (JObject [(''a'', JNumber ''1'')]))"
  by (simp add: shallowMergeJSON_def)

lemma unmarshal_number_output:
  "unmarshal_Output number_output =
   Inr \<lparr>HookSpecificOutput =
          \<lparr>HookSpecificOutput.HookEventName = '''', PermissionDecision = '''',
           PermissionDecisionReason = '''', UpdatedInput = Text (JNumber ''42''),
           AdditionalContext = ''''\<rparr>,
        Continue = None, SuppressOutput = None, SystemMessage = ''''\<rparr>"
  by (simp add: number_output_def json_output_def Output_member_keys hso_member_keys
      zero_Output_def zero_HookSpecificOutput_def)

theorem merge_error_fails_closed_witness:
  "ToolInput ls_input \<noteq> Empty \<and> Text (JNumber ''42'') \<noteq> Empty \<and>
   \<not> object_or_null (Text (JNumber ''42'')) \<and>
   shallowMergeJSON (ToolInput ls_input) (Text (JNumber ''42'')) =
     MergeError ''shallowMergeJSON patch: json: cannot unmarshal number into Go value of type map[string]json.RawMessage'' \<and>
   (0::nat) < length [hook ''bad'' ''skip'', hook ''never'' ''''] \<and>
   running no_isPrint mockRunner_Run ls_input [hook ''bad'' ''skip'', hook ''never'' ''''] 0
     (mock [exited 0 number_output '''']) =
     Some (ToolInput ls_input, [], [], mock [exited 0 number_output '''']) \<and>
   (\<exists>a'. Run no_f64 no_isPrint ls_input [hook ''bad'' ''skip'', hook ''never'' ''''] mockRunner_Run
            (Some (mockAuditor None)) (mock [exited 0 number_output '''']) [] =
         (Returned
            \<lparr>Result.ExitCode = 2,
             Output = decision_body ''PreToolUse'' ''deny''
                        (''hook-chain: failed to merge updatedInput from hook '' @
                         quote no_isPrint ''bad'' @ '': '' @
                         ''shallowMergeJSON patch: json: cannot unmarshal number into Go value of type map[string]json.RawMessage'')\<rparr>,
          called [exited 0 number_output ''''] [(''bad'', ls_stdin)], a'))"
proof -
  let ?hooks = "[hook ''bad'' ''skip'', hook ''never'' '''']"
  let ?m = "mock [exited 0 number_output '''']"
  let ?rr = "\<lparr>runner_Result.ExitCode = 0, Stdout = number_output, runner_Result.Stderr = ''''\<rparr>"
  let ?out = "\<lparr>HookSpecificOutput =
          \<lparr>HookSpecificOutput.HookEventName = '''', PermissionDecision = '''',
           PermissionDecisionReason = '''', UpdatedInput = Text (JNumber ''42''),
           AdditionalContext = ''''\<rparr>,
        Continue = None, SuppressOutput = None, SystemMessage = ''''\<rparr>"
  let ?err = "''shallowMergeJSON patch: json: cannot unmarshal number into Go value of type map[string]json.RawMessage''"
  have ne: "ToolInput ls_input \<noteq> Empty" "Text (JNumber ''42'') \<noteq> Empty"
    "\<not> object_or_null (Text (JNumber ''42''))"
    by (simp_all add: ls_input_def)
  have merge: "shallowMergeJSON (ToolInput ls_input) (Text (JNumber ''42'')) = MergeError ?err"
    by (simp add: shallowMergeJSON_def ls_input_def type_error_def)
  have k: "(0::nat) < length ?hooks" by simp
  have run: "running no_isPrint mockRunner_Run ls_input ?hooks 0 ?m = Some (ToolInput ls_input, [], [], ?m)"
    by (rule running_0)
  have call: "mockRunner_Run ?m (?hooks ! 0) ls_stdin =
      (Inr ?rr, called [exited 0 number_output ''''] [(''bad'', ls_stdin)])"
    by (simp add: mockRunner_Run_first) (simp add: exited_def)
  have dec: "unmarshal_Output (TrimSpace (Stdout ?rr)) = Inr ?out"
    by (simp add: unmarshal_number_output)
  have hyps: "0 < length ?hooks \<and>
    running no_isPrint mockRunner_Run ls_input ?hooks 0 ?m = Some (ToolInput ls_input, [], [], ?m) \<and>
    Encode (WithToolInput ls_input (ToolInput ls_input)) = Inr ls_stdin \<and>
    mockRunner_Run ?m (?hooks ! 0) ls_stdin =
      (Inr ?rr, called [exited 0 number_output ''''] [(''bad'', ls_stdin)]) \<and>
    runner_Result.ExitCode ?rr = 0 \<and>
    unmarshal_Output (TrimSpace (Stdout ?rr)) = Inr ?out \<and>
    PermissionDecision (HookSpecificOutput ?out) \<noteq> ''deny'' \<and>
    PermissionDecision (HookSpecificOutput ?out) \<noteq> ''ask'' \<and>
    UpdatedInput (HookSpecificOutput ?out) \<noteq> Empty \<and>
    shallowMergeJSON (ToolInput ls_input) (UpdatedInput (HookSpecificOutput ?out)) = MergeError ?err"
    using run Encode_ls call dec merge by simp
  have inst: "(ToolInput ls_input \<noteq> Empty \<and> Text (JNumber ''42'') \<noteq> Empty \<and>
       (\<not> object_or_null (ToolInput ls_input) \<or> \<not> object_or_null (Text (JNumber ''42''))) \<longrightarrow>
      (\<exists>err. shallowMergeJSON (ToolInput ls_input) (Text (JNumber ''42'')) = MergeError err))"
    "\<exists>a'. Run no_f64 no_isPrint ls_input ?hooks mockRunner_Run (Some (mockAuditor None)) ?m [] =
         (Returned
            \<lparr>Result.ExitCode = 2,
             Output = decision_body (Input.HookEventName ls_input) ''deny''
                        (''hook-chain: failed to merge updatedInput from hook '' @
                         quote no_isPrint (Name (?hooks ! 0)) @ '': '' @ ?err)\<rparr>,
          called [exited 0 number_output ''''] [(''bad'', ls_stdin)], a')"
    using merge_error_fails_closed [where base = "ToolInput ls_input" and patch = "Text (JNumber ''42'')"
        and k = 0 and hooks = ?hooks and r = mockRunner_Run and input = ls_input and w = ?m
        and acc = "ToolInput ls_input" and ctx = "[]" and res = "[]" and ?w1.0 = ?m
        and stdin = ls_stdin and runRes = ?rr
        and ?w2.0 = "called [exited 0 number_output ''''] [(''bad'', ls_stdin)]"
        and out = ?out and err = ?err and f = no_f64 and auditor = "Some (mockAuditor None)"
        and a = "[]"] hyps
    by blast+
  from inst(2) have "\<exists>a'. Run no_f64 no_isPrint ls_input ?hooks mockRunner_Run (Some (mockAuditor None)) ?m [] =
         (Returned
            \<lparr>Result.ExitCode = 2,
             Output = decision_body ''PreToolUse'' ''deny''
                        (''hook-chain: failed to merge updatedInput from hook '' @
                         quote no_isPrint ''bad'' @ '': '' @ ?err)\<rparr>,
          called [exited 0 number_output ''''] [(''bad'', ls_stdin)], a')"
    by (simp add: ls_input_def hook_def)
  then show ?thesis
    using ne merge k run by simp
qed

lemma running_Suc_Continue:
  assumes "k < length hooks"
    and "running p r input hooks k w = Some (acc, ctx, res, w1)"
    and "hook_step p r None input 0 (int k) (hooks ! k) acc ctx res w1 () =
         Continue acc' ctx' res' w'"
  shows "running p r input hooks (Suc k) w = Some (acc', ctx', res', w')"
  using running_Suc [OF assms(1,2)] assms(3) by simp

lemma running_Suc_Return:
  assumes "k < length hooks"
    and "running p r input hooks k w = Some (acc, ctx, res, w1)"
    and "hook_step p r None input 0 (int k) (hooks ! k) acc ctx res w1 () = Return result w' a'"
  shows "running p r input hooks (Suc k) w = None"
  using running_Suc [OF assms(1,2)] assms(3) by simp

text \<open>C6: for a hook whose policy is \<^verbatim>\<open>skip\<close>, a launch error of the runner, an exit code
  other than 0 and 2, or stdout on exit 0 that with the white space at its ends taken off is
  not empty and does not decode as an \<^verbatim>\<open>Output\<close>, makes the fold stand at the next hook with the accumulated state and the
  context list unchanged and one more hook record, whose outcome is "skip"; but exit code 2
  and an explicit deny or ask decision end the run with that decision all the same.\<close>

theorem skip_absorbs_failures_only:
  assumes "k < length hooks"
    and "running p r input hooks k w = Some (acc, ctx, res, w1)"
    and "Encode (WithToolInput input acc) = Inr stdin"
    and "EffectiveOnError (hooks ! k) = ''skip''"
    and "r w1 (hooks ! k) stdin = (x, w2)"
  shows "(absorbable x \<longrightarrow>
           (\<exists>rec. running p r input hooks (Suc k) w = Some (acc, ctx, res @ [rec], w2) \<and>
                  HookIndex rec = int k \<and> HookName rec = Name (hooks ! k) \<and>
                  HookResult.Outcome rec = ''skip'')) \<and>
         (veto x \<longrightarrow>
           running p r input hooks (Suc k) w = None \<and>
           (\<exists>d reason a'.
              (d = ''deny'' \<or> d = ''ask'') \<and>
              Run f p input hooks r auditor w a =
                (Returned \<lparr>Result.ExitCode = (if d = ''deny'' then 2 else 0),
                           Output = decision_body (Input.HookEventName input) d reason\<rparr>,
                 w2, a')))"
proof (cases x)
  case (Inl err)
  then have call: "r w1 (hooks ! k) stdin = (Inl err, w2)"
    using assms(5) by simp
  have "hook_step p r None input 0 (int k) (hooks ! k) acc ctx res w1 () =
      Continue acc ctx
        (res @ [\<lparr>HookIndex = int k, HookName = Name (hooks ! k), HookResult.ExitCode = - 1,
                 HookResult.Outcome = ''skip'',
                 HookResult.Stderr = TruncateStderr err 512\<rparr>]) w2"
    using hook_step_launch_error [where r = r and w = w1, OF assms(3) call] assms(4) by simp

  then have "running p r input hooks (Suc k) w =
      Some (acc, ctx,
        res @ [\<lparr>HookIndex = int k, HookName = Name (hooks ! k), HookResult.ExitCode = - 1,
                 HookResult.Outcome = ''skip'',
                 HookResult.Stderr = TruncateStderr err 512\<rparr>], w2)"
    by (rule running_Suc_Continue [OF assms(1,2)])
  then show ?thesis
    using Inl by simp
next
  case (Inr runRes)
  then have call: "r w1 (hooks ! k) stdin = (Inr runRes, w2)"
    using assms(5) by simp
  consider (two) "runner_Result.ExitCode runRes = 2"
    | (other) "runner_Result.ExitCode runRes \<noteq> 2" "runner_Result.ExitCode runRes \<noteq> 0"
    | (zero) "runner_Result.ExitCode runRes = 0"
    by blast
  then show ?thesis
  proof cases
    case two
    let ?reason = "if runner_Result.Stderr runRes \<noteq> '''' then runner_Result.Stderr runRes
             else ''hook '' @ quote p (Name (hooks ! k)) @ '' denied (exit 2)''"
    have none: "running p r input hooks (Suc k) w = None"
      using hook_step_exit_2 [where r = r and w = w1 and auditor = None and a = "()",
          OF assms(3) call two]
      by (intro running_Suc_Return [OF assms(1,2)]) (simp add: Let_def)
    have "\<exists>a'. Run f p input hooks r auditor w a =
        (Returned \<lparr>Result.ExitCode = 2,
                   Output = decision_body (Input.HookEventName input) ''deny'' ?reason\<rparr>, w2, a')"
      by (simp add: Run_running [OF assms(1,2)]
          hook_step_exit_2 [where r = r and w = w1, OF assms(3) call two] Let_def
          denyResult_body)
    then obtain a' where "Run f p input hooks r auditor w a =
        (Returned \<lparr>Result.ExitCode = (if ''deny'' = ''deny'' then 2 else 0),
                   Output = decision_body (Input.HookEventName input) ''deny'' ?reason\<rparr>, w2, a')"
      by auto
    then have "\<exists>d reason a'.
              (d = ''deny'' \<or> d = ''ask'') \<and>
              Run f p input hooks r auditor w a =
                (Returned \<lparr>Result.ExitCode = (if d = ''deny'' then 2 else 0),
                           Output = decision_body (Input.HookEventName input) d reason\<rparr>,
                 w2, a')"
      by blast

    then show ?thesis
      using Inr two none by simp
  next
    case other
    have "hook_step p r None input 0 (int k) (hooks ! k) acc ctx res w1 () =
        Continue acc ctx
          (res @ [\<lparr>HookIndex = int k, HookName = Name (hooks ! k),
                   HookResult.ExitCode = runner_Result.ExitCode runRes,
                   HookResult.Outcome = ''skip'',
                   HookResult.Stderr = TruncateStderr (runner_Result.Stderr runRes) 512\<rparr>]) w2"
      using hook_step_exit_other [where r = r and w = w1, OF assms(3) call other] assms(4)
      by simp
    then have "running p r input hooks (Suc k) w =
        Some (acc, ctx,
          res @ [\<lparr>HookIndex = int k, HookName = Name (hooks ! k),
                   HookResult.ExitCode = runner_Result.ExitCode runRes,
                   HookResult.Outcome = ''skip'',
                   HookResult.Stderr = TruncateStderr (runner_Result.Stderr runRes) 512\<rparr>], w2)"
      by (rule running_Suc_Continue [OF assms(1,2)])
    then show ?thesis
      using Inr other by simp
  next
    case zero
    show ?thesis
    proof (cases "unmarshal_Output (TrimSpace (Stdout runRes))")
      case (Inl err)
      then have nv: "\<not> veto x"
        using Inr zero by simp
      have "running p r input hooks (Suc k) w =
          Some (acc, ctx,
            res @ [\<lparr>HookIndex = int k, HookName = Name (hooks ! k), HookResult.ExitCode = 0,
                     HookResult.Outcome = ''skip'',
                     HookResult.Stderr = TruncateStderr err 512\<rparr>], w2)"
        if ne: "TrimSpace (Stdout runRes) \<noteq> Empty"
      proof -
        have te: "unmarshal_Output (TrimSpace (Stdout runRes)) = Inl err"
          using Inl by (simp add: unmarshal_Output_TrimSpace)
        have "hook_step p r None input 0 (int k) (hooks ! k) acc ctx res w1 () =
            Continue acc ctx
              (res @ [\<lparr>HookIndex = int k, HookName = Name (hooks ! k), HookResult.ExitCode = 0,
                       HookResult.Outcome = ''skip'',
                       HookResult.Stderr = TruncateStderr err 512\<rparr>]) w2"
          using hook_step_invalid_stdout [where r = r and w = w1, OF assms(3) call zero ne te]
            assms(4) by simp

        then show ?thesis
          by (rule running_Suc_Continue [OF assms(1,2)])
      qed
      then show ?thesis
        using Inr zero nv by auto
    next
      case (Inr out)
      then have na: "\<not> absorbable x"
        using \<open>x = Inr runRes\<close> zero by simp
      have "running p r input hooks (Suc k) w = None \<and>
           (\<exists>d reason a'.
              (d = ''deny'' \<or> d = ''ask'') \<and>
              Run f p input hooks r auditor w a =
                (Returned \<lparr>Result.ExitCode = (if d = ''deny'' then 2 else 0),
                           Output = decision_body (Input.HookEventName input) d reason\<rparr>,
                 w2, a'))"
        if d: "PermissionDecision (HookSpecificOutput out) = ''deny'' \<or>
               PermissionDecision (HookSpecificOutput out) = ''ask''"
      proof -
        let ?d = "PermissionDecision (HookSpecificOutput out)"
        note step = hook_step_decision [where r = r and w = w1 and d = ?d,
            OF assms(3) call zero Inr refl d]
        have "running p r input hooks (Suc k) w = None"
          by (rule running_Suc_Return [OF assms(1,2)]) (rule step)
        moreover have "\<exists>a'. Run f p input hooks r auditor w a =
            (Returned \<lparr>Result.ExitCode = (if ?d = ''deny'' then 2 else 0),
                       Output = decision_body (Input.HookEventName input) ?d
                                  (PermissionDecisionReason (HookSpecificOutput out))\<rparr>, w2, a')"
          by (simp add: Run_running [OF assms(1,2)] step buildDecisionResult_body)
        ultimately show ?thesis
          using d by blast
      qed
      then show ?thesis
        using Inr \<open>x = Inr runRes\<close> zero na by simp
    qed
  qed
qed

lemma EffectiveOnError_hook: "EffectiveOnError (hook name ''skip'') = ''skip''"
  by (simp add: EffectiveOnError_def hook_def)

theorem skip_absorbs_failures_only_witness:
  "(0::nat) < length [hook ''bad-json'' ''skip'', hook ''pass'' ''''] \<and>
   EffectiveOnError ([hook ''bad-json'' ''skip'', hook ''pass'' ''''] ! 0) = ''skip'' \<and>
   absorbable (exited 0 (Invalid ''invalid character'') '''') \<and>
   (\<exists>rec. running no_isPrint mockRunner_Run ls_input [hook ''bad-json'' ''skip'', hook ''pass'' ''''] (Suc 0)
            (mock [exited 0 (Invalid ''invalid character'') '''']) =
          Some (ToolInput ls_input, [], [] @ [rec],
                called [exited 0 (Invalid ''invalid character'') ''''] [(''bad-json'', ls_stdin)]) \<and>
          HookIndex rec = int 0 \<and> HookName rec = ''bad-json'' \<and>
          HookResult.Outcome rec = ''skip'') \<and>
   (0::nat) < length [hook ''hard-deny'' ''skip'', hook ''pass'' ''''] \<and>
   veto (exited 2 Empty ''no'') \<and>
   running no_isPrint mockRunner_Run ls_input [hook ''hard-deny'' ''skip'', hook ''pass'' ''''] (Suc 0)
     (mock [exited 2 Empty ''no'']) = None \<and>
   (\<exists>d reason a'.
      (d = ''deny'' \<or> d = ''ask'') \<and>
      Run no_f64 no_isPrint ls_input [hook ''hard-deny'' ''skip'', hook ''pass'' ''''] mockRunner_Run
        (Some (mockAuditor None)) (mock [exited 2 Empty ''no'']) [] =
        (Returned \<lparr>Result.ExitCode = (if d = ''deny'' then 2 else 0),
                   Output = decision_body ''PreToolUse'' d reason\<rparr>,
         called [exited 2 Empty ''no''] [(''hard-deny'', ls_stdin)], a'))"
proof -
  let ?hooks1 = "[hook ''bad-json'' ''skip'', hook ''pass'' '''']"
  let ?x1 = "exited 0 (Invalid ''invalid character'') ''''"
  let ?hooks2 = "[hook ''hard-deny'' ''skip'', hook ''pass'' '''']"
  let ?x2 = "exited 2 Empty ''no''"
  have k1: "(0::nat) < length ?hooks1" and k2: "(0::nat) < length ?hooks2"
    by simp_all
  have skip1: "EffectiveOnError (?hooks1 ! 0) = ''skip''"
    and skip2: "EffectiveOnError (?hooks2 ! 0) = ''skip''"
    by (simp_all add: EffectiveOnError_hook)
  have call1: "mockRunner_Run (mock [?x1]) (?hooks1 ! 0) ls_stdin =
      (?x1, called [?x1] [(''bad-json'', ls_stdin)])"
    by (simp add: mockRunner_Run_first)
  have call2: "mockRunner_Run (mock [?x2]) (?hooks2 ! 0) ls_stdin =
      (?x2, called [?x2] [(''hard-deny'', ls_stdin)])"
    by (simp add: mockRunner_Run_first)
  have a1: "absorbable ?x1" and v2: "veto ?x2"
    by (simp_all add: exited_def)
  note t1 = skip_absorbs_failures_only [OF k1
      running_0 [of no_isPrint mockRunner_Run ls_input ?hooks1 "mock [?x1]"] Encode_ls skip1 call1,
      of no_f64 "Some (mockAuditor None)" "[]"]
  note t2 = skip_absorbs_failures_only [OF k2
      running_0 [of no_isPrint mockRunner_Run ls_input ?hooks2 "mock [?x2]"] Encode_ls skip2 call2,
      of no_f64 "Some (mockAuditor None)" "[]"]
  from t1 a1 have c1: "\<exists>rec. running no_isPrint mockRunner_Run ls_input ?hooks1 (Suc 0) (mock [?x1]) =
          Some (ToolInput ls_input, [], [] @ [rec], called [?x1] [(''bad-json'', ls_stdin)]) \<and>
          HookIndex rec = int 0 \<and> HookName rec = Name (?hooks1 ! 0) \<and>
          HookResult.Outcome rec = ''skip''"
    by blast
  from t2 v2 have c2: "running no_isPrint mockRunner_Run ls_input ?hooks2 (Suc 0) (mock [?x2]) = None"
    and c3: "\<exists>d reason a'.
      (d = ''deny'' \<or> d = ''ask'') \<and>
      Run no_f64 no_isPrint ls_input ?hooks2 mockRunner_Run (Some (mockAuditor None)) (mock [?x2]) [] =
        (Returned \<lparr>Result.ExitCode = (if d = ''deny'' then 2 else 0),
                   Output = decision_body (Input.HookEventName ls_input) d reason\<rparr>,
         called [?x2] [(''hard-deny'', ls_stdin)], a')"
    by blast+
  have ev: "Input.HookEventName ls_input = ''PreToolUse''"
    by (simp add: ls_input_def)
  have nm: "Name (?hooks1 ! 0) = ''bad-json''"
    by (simp add: hook_def)
  show ?thesis
    using k1 skip1 a1 c1 k2 v2 c2 c3 unfolding ev nm by blast
qed

subsection \<open>The audit record\<close>

lemma recordAudit_Some:
  "recordAudit (Some RecordChain) input n outcome reason hookResults a =
   snd (RecordChain a (audit_entry input n outcome reason hookResults))"
  by (simp add: recordAudit_def audit_entry_def)

lemma hook_step_Return_audit:
  "hook_step p r auditor input n i h acc ctx res w a = Return result w' a' \<Longrightarrow>
   \<exists>outcome reason hookResults. a' = recordAudit auditor input n outcome reason hookResults a"
  by (auto simp: hook_step_def Let_def collect_def
      split: sum.splits prod.splits if_splits merged.splits)

lemma finish_audit:
  "\<exists>outcome reason.
     snd (finish f auditor input n orig acc ctx res a) =
     recordAudit auditor input n outcome reason res a"
  by (auto simp: finish_def Let_def split: sum.splits)

lemma fst_finish:
  "fst (finish f auditor input n orig acc ctx res a) =
   fst (finish f None input 0 orig acc ctx res ())"
  by (simp add: finish_def Let_def split: sum.splits)

lemma loop_audit:
  "loop f p r auditor input n i hooks acc ctx res w a = (Returned result, w', a') \<Longrightarrow>
   \<exists>outcome reason hookResults. a' = recordAudit auditor input n outcome reason hookResults a"
proof (induction hooks arbitrary: i acc ctx res w)
  case Nil
  then show ?case
    using finish_audit [of f auditor input n "ToolInput input" acc ctx res a]
    by (auto split: prod.splits)
next
  case (Cons h hooks)
  show ?case
  proof (cases "hook_step p r auditor input n i h acc ctx res w a")
    case (Continue acc1 ctx1 res1 w1)
    then show ?thesis
      using Cons.prems Cons.IH by simp
  next
    case (Return result1 w1 a1)
    then show ?thesis
      using Cons.prems hook_step_Return_audit [of p r auditor input n i h acc ctx res w a result1 w1 a1]
      by simp
  next
    case (Panic w1)
    then show ?thesis
      using Cons.prems by simp
  qed
qed

lemma loop_forget:
  "forget (loop f p r auditor input n i hooks acc ctx res w a) =
   forget (loop f p r None input 0 i hooks acc ctx res w ())"
proof (induction hooks arbitrary: i acc ctx res w)
  case Nil
  show ?case
    using fst_finish [of f auditor input n "ToolInput input" acc ctx res a]
    by (cases "finish f auditor input n (ToolInput input) acc ctx res a";
        cases "finish f None input 0 (ToolInput input) acc ctx res ()") simp
next

  case (Cons h hooks)
  show ?case
  proof (cases "hook_step p r auditor input n i h acc ctx res w a")
    case (Continue acc1 ctx1 res1 w1)
    moreover from this have "hook_step p r None input 0 i h acc ctx res w () = Continue acc1 ctx1 res1 w1"
      using erase_hook_step [of p r auditor input n i h acc ctx res w a] by simp
    ultimately show ?thesis
      using Cons.IH by simp
  next
    case (Return result1 w1 a1)
    moreover from this have "hook_step p r None input 0 i h acc ctx res w () = Return result1 w1 ()"
      using erase_hook_step [of p r auditor input n i h acc ctx res w a] by simp
    ultimately show ?thesis
      by simp
  next
    case (Panic w1)
    moreover from this have "hook_step p r None input 0 i h acc ctx res w () = Panic w1"
      using erase_hook_step [of p r auditor input n i h acc ctx res w a] by simp
    ultimately show ?thesis
      by simp
  qed
qed

lemma loop_None:
  "snd (snd (loop f p r None input n i hooks acc ctx res w a)) = a"
proof (induction hooks arbitrary: i acc ctx res w)
  case Nil
  show ?case
    using finish_audit [of f None input n "ToolInput input" acc ctx res a]
    by (cases "finish f None input n (ToolInput input) acc ctx res a") auto
next
  case (Cons h hooks)
  show ?case
  proof (cases "hook_step p r None input n i h acc ctx res w a")
    case (Continue acc1 ctx1 res1 w1)
    then show ?thesis
      using Cons.IH by simp
  next
    case (Return result1 w1 a1)
    then show ?thesis
      using hook_step_Return_audit [of p r None input n i h acc ctx res w a result1 w1 a1]
      by auto
  next
    case (Panic w1)
    then show ?thesis
      by simp
  qed
qed

lemma Run_forget:

  "forget (Run f p input hooks r auditor w a) = forget (Run f p input hooks r None w ())"
  using loop_forget [of f p r auditor input "int (length hooks)" 0 hooks "ToolInput input" "[]" "[]" w a]
    loop_forget [of f p r None input "int (length hooks)" 0 hooks "ToolInput input" "[]" "[]" w "()"]
  by (simp add: Run_def)

text \<open>C9, as amended: what \<^verbatim>\<open>Run\<close> returns, and what it does to the runner, is the same for
  every auditor and every behaviour of \<^verbatim>\<open>RecordChain\<close>, and the same without an auditor; when
  an auditor is given and \<^verbatim>\<open>Run\<close> returns, the auditor's store is what exactly one call of
  \<^verbatim>\<open>RecordChain\<close> made of it, with an entry whose chain length is the number of hooks; for
  the empty chain that entry has the outcome "allow" and chain length 0; without an auditor
  nothing is recorded.\<close>

theorem one_audit_record_and_auditor_independence:
  "forget (Run f p input hooks r auditor w a) = forget (Run f p input hooks r auditor' w b) \<and>
   (Run f p input hooks r (Some RecordChain) w a = (Returned result, w', a') \<longrightarrow>
      (\<exists>outcome reason hookResults.
         a' = snd (RecordChain a
                (audit_entry input (int (length hooks)) outcome reason hookResults)))) \<and>
   Run f p input [] r (Some RecordChain) w a =
     (Returned \<lparr>Result.ExitCode = 0, Output = Empty\<rparr>, w,
      snd (RecordChain a (audit_entry input 0 ''allow'' '''' []))) \<and>
   snd (snd (Run f p input hooks r None w a)) = a"
proof (intro conjI impI)
  show "forget (Run f p input hooks r auditor w a) = forget (Run f p input hooks r auditor' w b)"
    using Run_forget [of f p input hooks r auditor w a] Run_forget [of f p input hooks r auditor' w b]
    by simp
next
  assume run: "Run f p input hooks r (Some RecordChain) w a = (Returned result, w', a')"
  show "\<exists>outcome reason hookResults.
         a' = snd (RecordChain a
                (audit_entry input (int (length hooks)) outcome reason hookResults))"
  proof (cases "hooks = []")
    case True
    then show ?thesis
      using run by (auto simp: Run_def recordAudit_Some)
  next
    case False
    then have "loop f p r (Some RecordChain) input (int (length hooks)) 0 hooks (ToolInput input)
        [] [] w a = (Returned result, w', a')"
      using run by (simp add: Run_def)
    then show ?thesis
      using loop_audit by (fastforce simp: recordAudit_Some)
  qed
next
  show "Run f p input [] r (Some RecordChain) w a =
     (Returned \<lparr>Result.ExitCode = 0, Output = Empty\<rparr>, w,
      snd (RecordChain a (audit_entry input 0 ''allow'' '''' [])))"
    by (simp add: Run_def recordAudit_Some)
next
  show "snd (snd (Run f p input hooks r None w a)) = a"
    by (simp add: Run_def loop_None)
qed

lemma makeInput_null: "makeInput JNull = Inr null_input"
  by (simp add: makeInput_def Decode_def UnmarshalJSON_def string_field_def lookup_def
      zero_Input_def null_input_def)

lemma Encode_null: "Encode (WithToolInput null_input (ToolInput null_input)) = Inr null_stdin"
  by (simp add: Encode_def MarshalJSON_def WithToolInput_def null_input_def put_string_def
      null_stdin_def)

lemma Run_pass_example:
  "Run no_f64 no_isPrint ls_input [hook ''pass'' ''''] mockRunner_Run (Some (mockAuditor err))
     (mock [exited 0 Empty '''']) [] =
   (Returned \<lparr>Result.ExitCode = 0, Output = Empty\<rparr>,
    called [exited 0 Empty ''''] [(''pass'', ls_stdin)],
    [audit_entry ls_input 1 ''allow'' ''''
       [\<lparr>HookIndex = 0, HookName = ''pass'', HookResult.ExitCode = 0,
         HookResult.Outcome = ''pass'', HookResult.Stderr = ''''\<rparr>]])"
proof -
  have call: "mockRunner_Run (mock [exited 0 Empty '''']) (hook ''pass'' '''') ls_stdin =
      (Inr \<lparr>runner_Result.ExitCode = 0, Stdout = Empty, runner_Result.Stderr = ''''\<rparr>,
       called [exited 0 Empty ''''] [(''pass'', ls_stdin)])"
    by (simp add: mockRunner_Run_first) (simp add: exited_def)
  have step: "hook_step no_isPrint mockRunner_Run (Some (mockAuditor err)) ls_input 1 0 (hook ''pass'' '''')
      (ToolInput ls_input) [] [] (mock [exited 0 Empty '''']) [] =
      Continue (ToolInput ls_input) []
        [\<lparr>HookIndex = 0, HookName = ''pass'', HookResult.ExitCode = 0,
          HookResult.Outcome = ''pass'', HookResult.Stderr = ''''\<rparr>]
        (called [exited 0 Empty ''''] [(''pass'', ls_stdin)])"
    by (simp add: hook_step_def Encode_ls call) (simp add: hook_def)
  show ?thesis
    by (simp add: Run_def step finish_def recordAudit_Some mockAuditor_def)
qed

theorem one_audit_record_and_auditor_independence_witness:
  "Run no_f64 no_isPrint ls_input [hook ''pass'' ''''] mockRunner_Run (Some (mockAuditor (Some ''disk full'')))
     (mock [exited 0 Empty '''']) [] =
   (Returned \<lparr>Result.ExitCode = 0, Output = Empty\<rparr>,
    called [exited 0 Empty ''''] [(''pass'', ls_stdin)],
    [audit_entry ls_input 1 ''allow'' ''''
       [\<lparr>HookIndex = 0, HookName = ''pass'', HookResult.ExitCode = 0,
         HookResult.Outcome = ''pass'', HookResult.Stderr = ''''\<rparr>]]) \<and>
   (\<exists>outcome reason hookResults.
      [audit_entry ls_input 1 ''allow'' ''''
         [\<lparr>HookIndex = 0, HookName = ''pass'', HookResult.ExitCode = 0,
           HookResult.Outcome = ''pass'', HookResult.Stderr = ''''\<rparr>]] =
      snd (mockAuditor (Some ''disk full'') []
             (audit_entry ls_input (int (length [hook ''pass'' ''''])) outcome reason
                hookResults))) \<and>
   forget (Run no_f64 no_isPrint ls_input [hook ''pass'' ''''] mockRunner_Run
             (Some (mockAuditor (Some ''disk full''))) (mock [exited 0 Empty '''']) []) =
   forget (Run no_f64 no_isPrint ls_input [hook ''pass'' ''''] mockRunner_Run
             (Some (mockAuditor None)) (mock [exited 0 Empty '''']) [])"
  using one_audit_record_and_auditor_independence
    [of no_f64 no_isPrint ls_input "[hook ''pass'' '''']" mockRunner_Run
      "Some (mockAuditor (Some ''disk full''))" "mock [exited 0 Empty '''']" "[]"
      "Some (mockAuditor None)" "[]" "mockAuditor (Some ''disk full'')"
      "\<lparr>Result.ExitCode = 0, Output = Empty\<rparr>"
      "called [exited 0 Empty ''''] [(''pass'', ls_stdin)]"
      "[audit_entry ls_input 1 ''allow'' ''''
         [\<lparr>HookIndex = 0, HookName = ''pass'', HookResult.ExitCode = 0,
           HookResult.Outcome = ''pass'', HookResult.Stderr = ''''\<rparr>]]"]
    Run_pass_example [of "Some ''disk full''"]
  by blast

text \<open>C9 as it is stated fails: without an auditor (\<^verbatim>\<open>nil\<close>, as in the tests and when auditing
  is disabled) no record is attempted; and a run that panics in the merge, on a \<^verbatim>\<open>null\<close> tool
  input and an object patch, records nothing although an auditor is given.\<close>

theorem no_audit_record_counterexample:
  "snd (snd (Run no_f64 no_isPrint ls_input [] mockRunner_Run None (mock []) ([] :: ChainExecution list))) = [] \<and>
   Run no_f64 no_isPrint null_input [hook ''rewrite'' ''''] mockRunner_Run (Some (mockAuditor None))
     (mock [exited 0 rewrite_output '''']) [] =
   (Panicked, called [exited 0 rewrite_output ''''] [(''rewrite'', null_stdin)], [])"
proof -
  have call: "mockRunner_Run (mock [exited 0 rewrite_output '''']) (hook ''rewrite'' '''') null_stdin =
      (Inr \<lparr>runner_Result.ExitCode = 0, Stdout = rewrite_output, runner_Result.Stderr = ''''\<rparr>,
       called [exited 0 rewrite_output ''''] [(''rewrite'', null_stdin)])"
    by (simp add: mockRunner_Run_first) (simp add: exited_def)
  have trim: "TrimSpace rewrite_output = rewrite_output" and ne: "rewrite_output \<noteq> Empty"
    by (simp_all add: rewrite_output_def json_output_def)
  have merge: "shallowMergeJSON (ToolInput null_input)
      (Text (JObject [(''command'', JString ''ls -la'')])) = NilMapPanic"
    by (simp add: null_input_def shallowMergeJSON_def)
  have "hook_step no_isPrint mockRunner_Run (Some (mockAuditor None)) null_input 1 0 (hook ''rewrite'' '''')
      (ToolInput null_input) [] [] (mock [exited 0 rewrite_output '''']) [] =
      Panic (called [exited 0 rewrite_output ''''] [(''rewrite'', null_stdin)])"
    by (simp add: hook_step_def Encode_null call trim ne unmarshal_rewrite_output merge)
  then show ?thesis
    by (simp add: Run_def)
qed

subsection \<open>The envelope codec\<close>

lemma put_string_texts: "put_string key s (texts m) = texts (put_json key s m)"
  by (simp add: put_string_def put_json_def update_texts)

lemma put_json_inv:
  "map_of m' = map_of m \<Longrightarrow> (s \<noteq> '''' \<longrightarrow> map_of m key = Some (JString s)) \<Longrightarrow>
   map_of (put_json key s m') = map_of m"
  by (auto simp: put_json_def update_conv' fun_upd_idem_iff)

lemma distinct_put_json:
  "distinct (map fst m) \<Longrightarrow> distinct (map fst (put_json key s m))"
  by (simp add: put_json_def distinct_update)

lemma map_of_texts: "map_of (texts m) k = map_option Text (map_of m k)"
  by (induction m) auto

lemma lookup_texts: "lookup (Some (texts m)) k = map_option Text (map_of m k)"
  by (simp add: lookup_def map_of_texts)

lemma string_field_texts:
  "string_field (Some (texts m)) key '''' = Inr s \<Longrightarrow> s \<noteq> '''' \<Longrightarrow>
   map_of m key = Some (JString s)"
  by (cases "map_of m key"; cases "the (map_of m key)")
    (auto simp: string_field_def lookup_texts split: sum.splits)

lemma bind_err_eq_Inr:
  "bind_err x g = Inr y \<longleftrightarrow> (\<exists>v. x = Inr v \<and> g v = Inr y)"
  by (cases x) simp_all

lemma UnmarshalJSON_object:
  assumes "UnmarshalJSON zero_Input (Text (JObject kvs)) = Inr inp"
  defines "m \<equiv> fold (\<lambda>(k, v). AList.update k v) kvs []"
  shows "rawFields inp = Some (texts m)"
    and "Input.SessionID inp \<noteq> '''' \<longrightarrow> map_of m ''session_id'' = Some (JString (Input.SessionID inp))"
    and "TranscriptPath inp \<noteq> '''' \<longrightarrow>
           map_of m ''transcript_path'' = Some (JString (TranscriptPath inp))"
    and "CWD inp \<noteq> '''' \<longrightarrow> map_of m ''cwd'' = Some (JString (CWD inp))"
    and "PermissionMode inp \<noteq> '''' \<longrightarrow>
           map_of m ''permission_mode'' = Some (JString (PermissionMode inp))"
    and "Input.HookEventName inp \<noteq> '''' \<longrightarrow>
           map_of m ''hook_event_name'' = Some (JString (Input.HookEventName inp))"
    and "Input.ToolName inp \<noteq> '''' \<longrightarrow>
           map_of m ''tool_name'' = Some (JString (Input.ToolName inp))"
    and "ToolUseID inp \<noteq> '''' \<longrightarrow> map_of m ''tool_use_id'' = Some (JString (ToolUseID inp))"
    and "ToolInput inp = (case map_of m ''tool_input'' of None \<Rightarrow> Empty | Some v \<Rightarrow> Text v)"
proof -
  from assms(1) obtain s1 s2 s3 s4 s5 s6 s7 where
    f: "string_field (Some (texts m)) ''session_id'' '''' = Inr s1"
       "string_field (Some (texts m)) ''transcript_path'' '''' = Inr s2"
       "string_field (Some (texts m)) ''cwd'' '''' = Inr s3"
       "string_field (Some (texts m)) ''permission_mode'' '''' = Inr s4"
       "string_field (Some (texts m)) ''hook_event_name'' '''' = Inr s5"
       "string_field (Some (texts m)) ''tool_name'' '''' = Inr s6"
       "string_field (Some (texts m)) ''tool_use_id'' '''' = Inr s7"
    and inp: "inp = \<lparr>Input.SessionID = s1, TranscriptPath = s2, CWD = s3, PermissionMode = s4,
               Input.HookEventName = s5, Input.ToolName = s6, ToolUseID = s7,
               ToolInput = (case lookup (Some (texts m)) ''tool_input'' of
                              None \<Rightarrow> Empty | Some v \<Rightarrow> v),
               rawFields = Some (texts m)\<rparr>"
    unfolding UnmarshalJSON_def unmarshal_map_object m_def zero_Input_def
    by (auto simp: bind_err_eq_Inr cong: option.case_cong)
  show "rawFields inp = Some (texts m)"
    by (simp add: inp)
  show "Input.SessionID inp \<noteq> '''' \<longrightarrow> map_of m ''session_id'' = Some (JString (Input.SessionID inp))"
    using string_field_texts [OF f(1)] by (simp add: inp)
  show "TranscriptPath inp \<noteq> '''' \<longrightarrow>
           map_of m ''transcript_path'' = Some (JString (TranscriptPath inp))"
    using string_field_texts [OF f(2)] by (simp add: inp)
  show "CWD inp \<noteq> '''' \<longrightarrow> map_of m ''cwd'' = Some (JString (CWD inp))"
    using string_field_texts [OF f(3)] by (simp add: inp)
  show "PermissionMode inp \<noteq> '''' \<longrightarrow>
           map_of m ''permission_mode'' = Some (JString (PermissionMode inp))"
    using string_field_texts [OF f(4)] by (simp add: inp)
  show "Input.HookEventName inp \<noteq> '''' \<longrightarrow>
           map_of m ''hook_event_name'' = Some (JString (Input.HookEventName inp))"
    using string_field_texts [OF f(5)] by (simp add: inp)
  show "Input.ToolName inp \<noteq> '''' \<longrightarrow>
           map_of m ''tool_name'' = Some (JString (Input.ToolName inp))"
    using string_field_texts [OF f(6)] by (simp add: inp)
  show "ToolUseID inp \<noteq> '''' \<longrightarrow> map_of m ''tool_use_id'' = Some (JString (ToolUseID inp))"
    using string_field_texts [OF f(7)] by (simp add: inp)
  show "ToolInput inp = (case map_of m ''tool_input'' of None \<Rightarrow> Empty | Some v \<Rightarrow> Text v)"
    by (simp add: inp lookup_texts split: option.splits)
qed

lemma Encode_decoded_object:
  assumes "UnmarshalJSON zero_Input (Text (JObject kvs)) = Inr inp"
  shows "\<exists>members. Encode inp = Inr (Text (JObject members)) \<and>
           (\<forall>k. member_of members k = member_of kvs k) \<and>
           fst ` set members = fst ` set kvs"
proof -
  define m where "m = fold (\<lambda>(k, v). AList.update k v) kvs []"
  note u = UnmarshalJSON_object [OF assms, folded m_def]
  define M where "M =
    put_json ''tool_use_id'' (ToolUseID inp)
      (put_json ''tool_name'' (Input.ToolName inp)
        (put_json ''hook_event_name'' (Input.HookEventName inp)
          (put_json ''permission_mode'' (PermissionMode inp)
            (put_json ''cwd'' (CWD inp)
              (put_json ''transcript_path'' (TranscriptPath inp)
                (put_json ''session_id'' (Input.SessionID inp) m))))))"
  define m' where "m' =
    (case map_of m ''tool_input'' of None \<Rightarrow> M | Some v \<Rightarrow> AList.update ''tool_input'' v M)"
  have dm: "distinct (map fst m)"
    unfolding m_def by (rule distinct_fold_update_plain) simp
  have M: "map_of M = map_of m"
    unfolding M_def by (intro put_json_inv refl u(2-8))
  have dM: "distinct (map fst M)"
    unfolding M_def by (intro distinct_put_json dm)
  have m': "map_of m' = map_of m"
    by (auto simp: m'_def M update_conv' fun_upd_idem_iff split: option.splits)
  have dm': "distinct (map fst m')"
    by (simp add: m'_def dM distinct_update split: option.splits)
  have "MarshalJSON inp = marshal_map (Some (texts m'))"
    by (simp add: MarshalJSON_def u(1) u(9) put_string_texts M_def [symmetric] m'_def update_texts
        split: option.splits)
  then have enc: "Encode inp = Inr (Text (JObject (sort_key fst m')))"
    by (simp only: Encode_def marshal_map_texts)
  have mem: "member_of (sort_key fst m') k = member_of kvs k" for k
    using map_of_fold_update_plain [of kvs "[]" k]
    by (simp add: member_of_sort_key [OF dm'] m' m_def split: option.splits)
  have "fst ` set (sort_key fst m') = dom (map_of m')"
    by (simp add: dom_map_of_conv_image_fst)
  also have "\<dots> = dom (member_of kvs)"
    using mem by (simp add: member_of_sort_key [OF dm', symmetric] dom_def)
  also have "\<dots> = fst ` set kvs"
    by (simp add: member_of_def [abs_def] dom_map_of_conv_image_fst)
  finally show ?thesis
    using enc mem by blast
qed

lemma Encode_zero_Input: "Encode zero_Input = Inr (Text (JObject []))"
  by (simp add: Encode_def MarshalJSON_def zero_Input_def put_string_def)

lemma UnmarshalJSON_null: "UnmarshalJSON zero_Input (Text JNull) = Inr zero_Input"
  by (simp add: UnmarshalJSON_def string_field_def lookup_def zero_Input_def)

lemma UnmarshalJSON_other:
  "j \<noteq> JNull \<Longrightarrow> \<forall>kvs. j \<noteq> JObject kvs \<Longrightarrow> \<exists>err. UnmarshalJSON inp (Text j) = Inl err"
  by (cases j) (simp_all add: UnmarshalJSON_def)

lemma Decode_Text: "Decode (Text j) = UnmarshalJSON zero_Input (Text j)"
  by (simp add: Decode_def)

lemma Decode_Inr_cases:
  assumes "Decode data = Inr inp"
  obtains (null) "data = Text JNull" "inp = zero_Input"
    | (object) kvs where "data = Text (JObject kvs)"
        "UnmarshalJSON zero_Input (Text (JObject kvs)) = Inr inp"
proof (cases data)
  case (Text j)
  consider "j = JNull" | kvs where "j = JObject kvs" | "j \<noteq> JNull" "\<forall>kvs. j \<noteq> JObject kvs"
    by blast
  then show ?thesis
  proof cases
    case 1
    then show ?thesis
      using assms Text null by (simp add: Decode_Text UnmarshalJSON_null)
  next
    case 2
    then show ?thesis
      using assms Text object by (simp add: Decode_Text)
  next
    case 3
    then show ?thesis
      using assms Text UnmarshalJSON_other [of j zero_Input] by (auto simp: Decode_Text)
  qed
qed (use assms in \<open>simp_all add: Decode_def\<close>)

text \<open>C7: when \<^verbatim>\<open>Decode\<close> accepts an envelope, \<^verbatim>\<open>Encode\<close> of the decoded value succeeds and
  gives an object with exactly the top-level keys of the input, known or not, each with the
  value the input gives it; the statement is about the set of keys and the value under each
  key, so it does not depend on the order of the keys.\<close>

theorem decode_encode_keeps_every_key:
  assumes "Decode data = Inr inp"
  shows "\<exists>members. Encode inp = Inr (Text (JObject members)) \<and>
           top_keys data \<subseteq> fst ` set members \<and>
           (\<forall>k. member_of members k = top_member data k)"
  using assms
proof (cases rule: Decode_Inr_cases)
  case null
  then show ?thesis
    by (simp add: Encode_zero_Input member_of_def)
next
  case (object kvs)
  then show ?thesis
    using Encode_decoded_object [of kvs inp] by auto
qed

lemma Decode_roundtrip_envelope: "Decode roundtrip_envelope = Inr roundtrip_input"
  by (simp add: roundtrip_envelope_def Decode_def UnmarshalJSON_def string_field_def lookup_def
      zero_Input_def roundtrip_input_def)

theorem decode_encode_keeps_every_key_witness:
  "Decode roundtrip_envelope = Inr roundtrip_input \<and>
   (\<exists>members. Encode roundtrip_input = Inr (Text (JObject members)) \<and>
      ''unknownField'' \<in> fst ` set members \<and>
      ''anotherUnknown'' \<in> fst ` set members \<and>
      member_of members ''unknownField'' = Some (JString ''should survive'') \<and>
      member_of members ''anotherUnknown'' = Some (JNumber ''42''))"
proof -
  from decode_encode_keeps_every_key [OF Decode_roundtrip_envelope]
  obtain members where enc: "Encode roundtrip_input = Inr (Text (JObject members))"
    and keys: "top_keys roundtrip_envelope \<subseteq> fst ` set members"
    and mem: "\<And>k. member_of members k = top_member roundtrip_envelope k"
    by blast
  have "''unknownField'' \<in> top_keys roundtrip_envelope"
    "''anotherUnknown'' \<in> top_keys roundtrip_envelope"
    by (simp_all add: roundtrip_envelope_def)
  moreover have "top_member roundtrip_envelope ''unknownField'' = Some (JString ''should survive'')"
    "top_member roundtrip_envelope ''anotherUnknown'' = Some (JNumber ''42'')"
    by (simp_all add: roundtrip_envelope_def member_of_def)
  ultimately show ?thesis
    using Decode_roundtrip_envelope enc keys mem by auto
qed

subsection \<open>What \<^verbatim>\<open>Decode\<close> accepts\<close>

lemma string_field_string_or_null:
  assumes "string_or_null (map_of m key)"
  shows "\<exists>s. string_field (Some (texts m)) key '''' = Inr s"
proof (cases "map_of m key")
  case None
  then show ?thesis
    by (simp add: string_field_def lookup_texts)
next
  case (Some j)
  then show ?thesis
    using assms by (cases j) (simp_all add: string_field_def lookup_texts)
qed

lemma UnmarshalJSON_accepts:
  assumes "list_all (\<lambda>key. string_or_null (member_of kvs key)) string_keys"
  shows "\<exists>inp. UnmarshalJSON zero_Input (Text (JObject kvs)) = Inr inp"
proof -
  define m where "m = fold (\<lambda>(k, v). AList.update k v) kvs []"
  have "map_of m key = member_of kvs key" for key
    using map_of_fold_update_plain [of kvs "[]" key] by (simp add: m_def split: option.splits)
  then have "string_or_null (map_of m key)" if "key \<in> set string_keys" for key
    using assms that by (simp add: list_all_iff)
  then obtain s1 s2 s3 s4 s5 s6 s7 where
       "string_field (Some (texts m)) ''session_id'' '''' = Inr s1"
       "string_field (Some (texts m)) ''transcript_path'' '''' = Inr s2"
       "string_field (Some (texts m)) ''cwd'' '''' = Inr s3"
       "string_field (Some (texts m)) ''permission_mode'' '''' = Inr s4"
       "string_field (Some (texts m)) ''hook_event_name'' '''' = Inr s5"
       "string_field (Some (texts m)) ''tool_name'' '''' = Inr s6"
       "string_field (Some (texts m)) ''tool_use_id'' '''' = Inr s7"
    using string_field_string_or_null [of m] unfolding string_keys_def
    by (metis list.set_intros(1) list.set_intros(2))
  then show ?thesis
    unfolding UnmarshalJSON_def unmarshal_map_object m_def [symmetric] zero_Input_def
    by simp
qed

text \<open>C8, as amended: \<^verbatim>\<open>Decode\<close> fails on bytes that are no JSON text and on a JSON text whose
  top level is neither an object nor \<^verbatim>\<open>null\<close>; on \<^verbatim>\<open>null\<close> it succeeds and gives the zero
  \<^verbatim>\<open>Input\<close>; on an object whose known string fields are strings, \<^verbatim>\<open>null\<close> or absent it
  succeeds, and the captured fields hold every top-level key, known or not, with its value as
  it was written.\<close>

theorem decode_accepts_objects_and_null:
  "(malformed data \<longrightarrow> (\<exists>err. Decode data = Inl err)) \<and>
   (j \<noteq> JNull \<and> \<not> is_object (Text j) \<longrightarrow> (\<exists>err. Decode (Text j) = Inl err)) \<and>
   Decode (Text JNull) = Inr zero_Input \<and>
   (list_all (\<lambda>key. string_or_null (member_of kvs key)) string_keys \<longrightarrow>
      (\<exists>inp. Decode (Text (JObject kvs)) = Inr inp \<and>
             (\<forall>k. lookup (rawFields inp) k = map_option Text (member_of kvs k))))"
proof (intro conjI impI)
  assume "malformed data"
  then show "\<exists>err. Decode data = Inl err"
    by (cases data) (simp_all add: Decode_def)
next
  assume "j \<noteq> JNull \<and> \<not> is_object (Text j)"
  then have "j \<noteq> JNull" "\<forall>kvs. j \<noteq> JObject kvs"
    by auto
  then show "\<exists>err. Decode (Text j) = Inl err"
    using UnmarshalJSON_other [of j zero_Input] by (simp add: Decode_Text)
next
  show "Decode (Text JNull) = Inr zero_Input"
    by (simp add: Decode_Text UnmarshalJSON_null)
next
  assume "list_all (\<lambda>key. string_or_null (member_of kvs key)) string_keys"
  then obtain inp where inp: "UnmarshalJSON zero_Input (Text (JObject kvs)) = Inr inp"
    using UnmarshalJSON_accepts by blast
  have "lookup (rawFields inp) k = map_option Text (member_of kvs k)" for k
    using map_of_fold_update_plain [of kvs "[]" k]
    by (simp add: UnmarshalJSON_object(1) [OF inp] lookup_texts split: option.splits)
  then show "\<exists>inp. Decode (Text (JObject kvs)) = Inr inp \<and>
             (\<forall>k. lookup (rawFields inp) k = map_option Text (member_of kvs k))"
    using inp by (auto simp: Decode_Text)
qed

text \<open>C8 as it is stated fails: \<^verbatim>\<open>null\<close> is not a JSON object, and \<^verbatim>\<open>Decode\<close> accepts it.\<close>

theorem decode_null_counterexample:
  "\<not> is_object (Text JNull) \<and> Decode (Text JNull) = Inr zero_Input"
  by (simp add: Decode_Text UnmarshalJSON_null)

theorem decode_accepts_objects_and_null_witness:
  "malformed (Invalid ''invalid character'') \<and>
   (\<exists>err. Decode (Invalid ''invalid character'') = Inl err) \<and>
   JArray [] \<noteq> JNull \<and> \<not> is_object (Text (JArray [])) \<and>
   (\<exists>err. Decode (Text (JArray [])) = Inl err) \<and>
   list_all (\<lambda>key. string_or_null
               (member_of [(''tool_name'', JString ''Bash''), (''cwd'', JNull),
                           (''unknownField'', JNumber ''42'')] key)) string_keys \<and>
   (\<exists>inp. Decode (Text (JObject [(''tool_name'', JString ''Bash''), (''cwd'', JNull),
                                 (''unknownField'', JNumber ''42'')])) = Inr inp \<and>
          lookup (rawFields inp) ''unknownField'' = Some (Text (JNumber ''42'')))"
proof -
  let ?kvs = "[(''tool_name'', JString ''Bash''), (''cwd'', JNull),
               (''unknownField'', JNumber ''42'')]"
  have h1: "malformed (Invalid ''invalid character'')"
    and h2: "JArray [] \<noteq> JNull \<and> \<not> is_object (Text (JArray []))"
    and h3: "list_all (\<lambda>key. string_or_null (member_of ?kvs key)) string_keys"
    by (simp_all add: string_keys_def member_of_def)
  note t = decode_accepts_objects_and_null
    [of "Invalid ''invalid character''" "JArray []" ?kvs]
  from t h1 have c1: "\<exists>err. Decode (Invalid ''invalid character'') = Inl err"
    by blast
  from t h2 have c2: "\<exists>err. Decode (Text (JArray [])) = Inl err"
    by blast
  from t h3 obtain inp where "Decode (Text (JObject ?kvs)) = Inr inp"
    and "\<And>k. lookup (rawFields inp) k = map_option Text (member_of ?kvs k)"
    by blast
  then have c3: "\<exists>inp. Decode (Text (JObject ?kvs)) = Inr inp \<and>
      lookup (rawFields inp) ''unknownField'' = Some (Text (JNumber ''42''))"
    by (auto simp: member_of_def)
  show ?thesis
    using h1 h2 h3 c1 c2 c3 by blast
qed

subsection \<open>Normal forms\<close>


lemma member_of_Nil [simp]: "member_of [] k = None"
  by (simp add: member_of_def)









lemma sort_key_map_snd:
  "sort_key fst (map (\<lambda>(k, v). (k, g v)) m) = map (\<lambda>(k, v). (k, g v)) (sort_key fst m)"
proof (induction m)
  case Nil
  then show ?case by simp
next
  case (Cons kv m)
  have ins: "insort_key fst (k, g v) (map (\<lambda>(k, v). (k, g v)) l) =
      map (\<lambda>(k, v). (k, g v)) (insort_key fst (k, v) l)" for k v l
    by (induction l) auto
  show ?case
    using Cons.IH by (cases kv) (simp add: ins)
qed











subsection \<open>The comparison after the loop\<close>





subsection \<open>What the loop keeps true of its variables\<close>











lemma makeInput_ba:
  "makeInput (JObject [(''b'', JNumber ''2''), (''a'', JNumber ''1'')]) = Inr ba_input"
  by (simp add: makeInput_def Decode_def UnmarshalJSON_def string_field_def lookup_def
      zero_Input_def ba_input_def)

















lemma makeInput_tool_call: "makeInput j = Inr (tool_call j)"
  by (simp add: makeInput_def Decode_def UnmarshalJSON_def string_field_def lookup_def
      zero_Input_def tool_call_def)










end
